theory Spec2Isabelle
  imports Complex_Main "HOL-Library.Char_ord" "HOL-Library.List_Lexorder"
begin

section \<open>Cells, strings and the pandas operations the scripts use\<close>

text \<open>
  A cell of a loaded spreadsheet column. \<open>NoneV\<close> is Python's \<open>None\<close> (the synthetic
  fallback data holds it), \<open>NaN\<close> is the float NaN that \<open>read_excel\<close> puts into an empty
  cell, \<open>Str s\<close> is a string and \<open>Obj s\<close> is any other object (a number, a boolean),
  carried with the text \<open>s\<close> that \<open>str()\<close> gives for it. \<open>Timestamp y s\<close> is a datetime
  of year \<open>y\<close> with text \<open>s\<close>, and \<open>NaT\<close> the missing datetime.
  Characters are code points below 256.
\<close>

datatype cell = NoneV | NaN | NaT | Str string | Obj string | Timestamp int string

definition isna :: "cell \<Rightarrow> bool" where
  "isna c = (c = NoneV \<or> c = NaN \<or> c = NaT)"

definition notna :: "cell \<Rightarrow> bool" where
  "notna c = (\<not> isna c)"

text \<open>\<open>str(x)\<close> as \<open>Series.astype(str)\<close> applies it to every element, missing ones included.\<close>

fun py_str :: "cell \<Rightarrow> string" where
  "py_str NoneV = ''None''"
| "py_str NaN = ''nan''"
| "py_str NaT = ''NaT''"
| "py_str (Str s) = s"
| "py_str (Obj s) = s"
| "py_str (Timestamp y s) = s"

definition astype_str :: "cell \<Rightarrow> cell" where
  "astype_str c = Str (py_str c)"

text \<open>The \<open>.str\<close> accessor applies a string method to strings and gives NaN elsewhere.\<close>

fun str_accessor :: "(string \<Rightarrow> string) \<Rightarrow> cell \<Rightarrow> cell" where
  "str_accessor f (Str s) = Str (f s)"
| "str_accessor f c = NaN"

text \<open>\<open>str.isspace\<close> on the code points below 256.\<close>

definition py_isspace :: "char \<Rightarrow> bool" where
  "py_isspace c = ((of_char c :: nat) \<in> {9, 10, 11, 12, 13, 28, 29, 30, 31, 32, 133, 160})"

definition py_strip :: "string \<Rightarrow> string" where
  "py_strip s = rev (dropWhile py_isspace (rev (dropWhile py_isspace s)))"

text \<open>
  \<open>str.upper\<close> on the ASCII letters. The other code points are left as they are; none of
  them has an ASCII letter as its upper case, so comparisons with the ASCII literals of
  the scripts are not affected.
\<close>

definition py_upper_char :: "char \<Rightarrow> char" where
  "py_upper_char c =
     (if 97 \<le> (of_char c :: nat) \<and> (of_char c :: nat) \<le> 122
      then char_of ((of_char c :: nat) - 32) else c)"

definition py_upper :: "string \<Rightarrow> string" where
  "py_upper s = map py_upper_char s"

text \<open>
  \<open>Series.str.replace('NULL', repl, case=False)\<close>: every non-overlapping occurrence of
  the four letters, in any case, is replaced, scanning from the left. It is a substring
  replacement, not a comparison of the whole value.
\<close>

fun str_replace_NULL :: "string \<Rightarrow> string \<Rightarrow> string" where
  "str_replace_NULL repl [] = []"
| "str_replace_NULL repl (c # cs) =
     (if py_upper (take 4 (c # cs)) = ''NULL''
      then repl @ str_replace_NULL repl (drop 3 cs)
      else c # str_replace_NULL repl cs)"

definition fillna :: "string \<Rightarrow> cell \<Rightarrow> cell" where
  "fillna v c = (if isna c then Str v else c)"

text \<open>\<open>Series.replace(old, new)\<close> and \<open>Series.replace(dict)\<close> compare whole values.\<close>

definition replace_value :: "string \<Rightarrow> string \<Rightarrow> cell \<Rightarrow> cell" where
  "replace_value old new c = (if c = Str old then Str new else c)"

definition replace_dict :: "(string \<times> string) list \<Rightarrow> cell \<Rightarrow> cell" where
  "replace_dict d c =
     (case c of Str s \<Rightarrow> (case map_of d s of Some v \<Rightarrow> Str v | None \<Rightarrow> c) | _ \<Rightarrow> c)"

fun isin :: "string list \<Rightarrow> cell \<Rightarrow> bool" where
  "isin vs (Str s) = (s \<in> set vs)"
| "isin vs c = False"

section \<open>The normalizers\<close>

text \<open>colors.py, lines 53-54: \<open>fillna('N').replace('NULL', 'N')\<close>.\<close>

definition colors_clean :: "cell \<Rightarrow> cell" where
  "colors_clean c = replace_value ''NULL'' ''N'' (fillna ''N'' c)"

text \<open>colors.py, line 57: only rows with both values in \<open>['Y', 'N']\<close> are kept.\<close>

definition colors_filter :: "(cell \<times> cell) list \<Rightarrow> (cell \<times> cell) list" where
  "colors_filter rows = filter (\<lambda>(a, b). isin [''Y'', ''N''] a \<and> isin [''Y'', ''N''] b) rows"

definition colors_prepare :: "(cell \<times> cell) list \<Rightarrow> (cell \<times> cell) list" where
  "colors_prepare rows = colors_filter (map (\<lambda>(a, b). (colors_clean a, colors_clean b)) rows)"

text \<open>gang_colors.py, lines 43-49: \<open>standardize_column\<close>, element by element.\<close>

definition standardize_value :: "cell \<Rightarrow> cell" where
  "standardize_value c =
     (let standardized = str_accessor py_strip (str_accessor py_upper (astype_str c));
          standardized = fillna ''N''
            (replace_dict [(''NULL'', ''N''), (''NAN'', ''N''), (''N/A'', ''N'')] standardized)
      in if standardized \<noteq> Str ''Y'' then Str ''N'' else standardized)"

definition standardize_column :: "cell list \<Rightarrow> cell list" where
  "standardize_column series = map standardize_value series"

text \<open>race.py, lines 51-53 (and heatmap.py, line 69): the race column.\<close>

definition race_clean :: "cell \<Rightarrow> cell" where
  "race_clean c =
     replace_value ''nan'' ''Unknown''
       (fillna ''Unknown''
         (str_accessor (str_replace_NULL ''Unknown'') (str_accessor py_strip (astype_str c))))"

text \<open>race.py, lines 56-57: the gang admission column.\<close>

definition admits_gang_clean :: "cell \<Rightarrow> cell" where
  "admits_gang_clean c =
     replace_value ''nan'' ''N''
       (fillna ''N''
         (str_accessor (str_replace_NULL ''N'') (str_accessor py_strip (astype_str c))))"

section \<open>Contingency tables\<close>

text \<open>
  A table as pandas prints it: the row labels, the column labels, and one row of counts
  per row label.
\<close>

record table =
  tbl_index :: "string list"
  tbl_columns :: "string list"
  tbl_values :: "nat list list"

datatype error = KeyError | AttributeError

definition table_sum :: "table \<Rightarrow> nat" where
  "table_sum t = sum_list (map sum_list (tbl_values t))"

text \<open>
  \<open>pd.crosstab(a, b)\<close>: pairs with a missing value are left out, the labels of each
  dimension are the distinct values in sorted order, and a cell counts the rows with
  that pair of labels. Every cell that reaches \<open>crosstab\<close> in these scripts is a string,
  whose label is the string itself.
\<close>

definition crosstab_pairs :: "(cell \<times> cell) list \<Rightarrow> (string \<times> string) list" where
  "crosstab_pairs rows =
     map (\<lambda>(a, b). (py_str a, py_str b)) (filter (\<lambda>(a, b). notna a \<and> notna b) rows)"

definition crosstab :: "(cell \<times> cell) list \<Rightarrow> table" where
  "crosstab rows =
     (let ps = crosstab_pairs rows;
          idx = sort (remdups (map fst ps));
          cols = sort (remdups (map snd ps))
      in \<lparr>tbl_index = idx, tbl_columns = cols,
          tbl_values = map (\<lambda>r. map (\<lambda>c. count_list ps (r, c)) cols) idx\<rparr>)"

text \<open>\<open>DataFrame.reindex(index=new, fill_value=fill)\<close>.\<close>

definition reindex_index :: "string list \<Rightarrow> nat \<Rightarrow> table \<Rightarrow> table" where
  "reindex_index new fill t =
     \<lparr>tbl_index = new, tbl_columns = tbl_columns t,
      tbl_values = map (\<lambda>r. case map_of (zip (tbl_index t) (tbl_values t)) r of
                                Some row \<Rightarrow> row
                              | None \<Rightarrow> replicate (length (tbl_columns t)) fill) new\<rparr>"

text \<open>\<open>t[cs]\<close> with a list of column labels: a label that is not a column raises KeyError.\<close>

definition select_columns :: "string list \<Rightarrow> table \<Rightarrow> error + table" where
  "select_columns cs t =
     (if set cs \<subseteq> set (tbl_columns t)
      then Inr \<lparr>tbl_index = tbl_index t, tbl_columns = cs,
                tbl_values = map (\<lambda>row. map (\<lambda>c. case map_of (zip (tbl_columns t) row) c of
                                                     Some v \<Rightarrow> v | None \<Rightarrow> 0) cs) (tbl_values t)\<rparr>
      else Inl KeyError)"

text \<open>\<open>t[name] = v\<close> for a new column: it is appended as the last column.\<close>

definition add_column :: "string \<Rightarrow> nat \<Rightarrow> table \<Rightarrow> table" where
  "add_column name v t =
     \<lparr>tbl_index = tbl_index t, tbl_columns = tbl_columns t @ [name],
      tbl_values = map (\<lambda>row. row @ [v]) (tbl_values t)\<rparr>"

text \<open>colors.py, lines 62-70.\<close>

definition colors_frequency_table :: "(cell \<times> cell) list \<Rightarrow> error + table" where
  "colors_frequency_table rows =
     (let frequency_table = crosstab (colors_prepare rows);
          frequency_table = reindex_index [''N'', ''Y''] 0 frequency_table
      in if ''N'' \<in> set (tbl_columns frequency_table) \<and> ''Y'' \<in> set (tbl_columns frequency_table)
         then select_columns [''N'', ''Y''] frequency_table
         else Inr frequency_table)"

text \<open>gang_colors.py, lines 51-61.\<close>

definition contingency_table :: "(cell \<times> cell) list \<Rightarrow> table" where
  "contingency_table rows =
     crosstab (zip (standardize_column (map fst rows)) (standardize_column (map snd rows)))"

text \<open>race.py, lines 51-73.\<close>

definition race_prepare :: "(cell \<times> cell) list \<Rightarrow> (cell \<times> cell) list" where
  "race_prepare rows = map (\<lambda>(r, a). (race_clean r, admits_gang_clean a)) rows"

definition race_frequency_table :: "(cell \<times> cell) list \<Rightarrow> error + table" where
  "race_frequency_table rows =
     (let frequency_table = crosstab (race_prepare rows);
          frequency_table = (if ''N'' \<notin> set (tbl_columns frequency_table)
                             then add_column ''N'' 0 frequency_table else frequency_table);
          frequency_table = (if ''Y'' \<notin> set (tbl_columns frequency_table)
                             then add_column ''Y'' 0 frequency_table else frequency_table)
      in select_columns [''N'', ''Y''] frequency_table)"

section \<open>The trend table of escalation.py\<close>

text \<open>
  \<open>df[column_date].dt.year\<close> (line 66): the accessor exists on a datetime column only,
  one whose cells are timestamps or NaT; the year of NaT is missing.
\<close>

fun is_datetime :: "cell \<Rightarrow> bool" where
  "is_datetime (Timestamp y s) = True"
| "is_datetime NaT = True"
| "is_datetime c = False"

fun year_of :: "cell \<Rightarrow> int option" where
  "year_of (Timestamp y s) = Some y"
| "year_of c = None"

definition dt_year :: "cell list \<Rightarrow> error + int option list" where
  "dt_year series =
     (if list_all is_datetime series then Inr (map year_of series) else Inl AttributeError)"

text \<open>
  \<open>groupby('Year').size()\<close>: one entry per year that occurs, in ascending order, rows
  with a missing year left out.
\<close>

definition groupby_size :: "int option list \<Rightarrow> (int \<times> nat) list" where
  "groupby_size years =
     map (\<lambda>y. (y, count_list years (Some y))) (sort (remdups [y. Some y \<leftarrow> years]))"

text \<open>escalation.py, line 77: the rows kept in \<open>flagged_df\<close>.\<close>

definition flagged :: "cell \<Rightarrow> bool" where
  "flagged c = (notna c \<and> str_accessor py_strip (astype_str c) \<noteq> Str [])"

definition flagged_count :: "int option list \<Rightarrow> cell list \<Rightarrow> (int \<times> nat) list" where
  "flagged_count years series =
     groupby_size (map fst (filter (\<lambda>(y, v). flagged v) (zip years series)))"

text \<open>
  Line 86: \<open>count / total * 100\<close> on floats. Dividing by zero gives NaN or an infinity,
  which \<open>None\<close> stands for; a finite result is given as the exact quotient.
\<close>

definition percent :: "nat \<Rightarrow> nat \<Rightarrow> rat option" where
  "percent cnt total_records =
     (if total_records = 0 then None else Some (of_nat cnt / of_nat total_records * 100))"

record trend_row =
  tr_year :: int
  tr_total_records :: nat
  tr_flags :: "(nat \<times> rat option) list"

text \<open>
  Lines 69-86: for every year of \<open>total_records_per_year\<close> and every tracked column,
  the flagged count merged from the left (0 where the year has no flagged row) and the
  percentage.
\<close>

definition trends_df :: "int option list \<Rightarrow> cell list list \<Rightarrow> trend_row list" where
  "trends_df years tracked =
     map (\<lambda>(y, total_records).
            \<lparr>tr_year = y, tr_total_records = total_records,
             tr_flags = map (\<lambda>series.
                          let cnt = (case map_of (flagged_count years series) y of
                                       Some n \<Rightarrow> n | None \<Rightarrow> 0)
                          in (cnt, percent cnt total_records)) tracked\<rparr>)
         (groupby_size years)"

section \<open>The geographic aggregate of heatmap.py\<close>

text \<open>
  \<open>str.replace(r'\..*', '', regex=True)\<close>: from each dot to the end of its line (the
  pattern's \<open>.\<close> does not match a newline).
\<close>

function re_sub_dot :: "string \<Rightarrow> string" where
  "re_sub_dot [] = []"
| "re_sub_dot (c # cs) =
     (if c = CHR ''.'' then re_sub_dot (dropWhile (\<lambda>d. d \<noteq> CHR 0x0A) cs)
      else c # re_sub_dot cs)"
  by pat_completeness auto
termination
  by (relation "measure length") (auto simp: less_Suc_eq_le length_dropWhile_le)

text \<open>heatmap.py, lines 65-66.\<close>

definition zip_clean :: "cell \<Rightarrow> cell" where
  "zip_clean c =
     str_accessor (take 5) (str_accessor py_strip (str_accessor re_sub_dot (astype_str c)))"

fun str_len_is :: "nat \<Rightarrow> cell \<Rightarrow> bool" where
  "str_len_is n (Str s) = (length s = n)"
| "str_len_is n c = False"

definition heatmap_prepare :: "(cell \<times> cell) list \<Rightarrow> (cell \<times> cell) list" where
  "heatmap_prepare rows =
     map (\<lambda>(z, r). (z, race_clean r))
       (filter (\<lambda>(z, r). str_len_is 5 z) (map (\<lambda>(z, r). (zip_clean z, r)) rows))"

text \<open>
  \<open>idxmax\<close> and \<open>max\<close> along a row (lines 79-80): missing values are skipped, and of
  several equal maxima the first in column order is taken.
\<close>

fun first_max :: "(string \<times> rat option) list \<Rightarrow> (string \<times> rat) option" where
  "first_max [] = None"
| "first_max ((l, None) # ps) = first_max ps"
| "first_max ((l, Some v) # ps) =
     (case first_max ps of
        None \<Rightarrow> Some (l, v)
      | Some (l', v') \<Rightarrow> if v < v' then Some (l', v') else Some (l, v))"

record map_row =
  md_zip :: string
  md_dominant_race :: "string option"
  md_dominant_percentage :: "rat option"
  md_total_records :: nat

text \<open>Lines 73-85.\<close>

definition map_data :: "(cell \<times> cell) list \<Rightarrow> map_row list" where
  "map_data rows =
     (let race_zip_counts = crosstab (heatmap_prepare rows)
      in map (\<lambda>(z, counts).
                let race_zip_percentage = map (\<lambda>v. percent v (sum_list counts)) counts;
                    best = first_max (zip (tbl_columns race_zip_counts) race_zip_percentage)
                in \<lparr>md_zip = z, md_dominant_race = map_option fst best,
                    md_dominant_percentage = map_option snd best,
                    md_total_records = sum_list counts\<rparr>)
             (zip (tbl_index race_zip_counts) (tbl_values race_zip_counts)))"

text \<open>Lines 115-129: the five ranges chosen from the largest total.\<close>

definition ranges :: "int \<Rightarrow> (int \<times> int) list" where
  "ranges max_records =
     (if max_records \<le> 10 then [(1, 1), (2, 2), (3, 4), (5, 7), (8, max_records)]
      else if max_records \<le> 50 then [(1, 2), (3, 5), (6, 10), (11, 20), (21, max_records)]
      else if max_records \<le> 100 then [(1, 3), (4, 8), (9, 15), (16, 30), (31, max_records)]
      else if max_records \<le> 500 then [(1, 5), (6, 15), (16, 30), (31, 60), (61, max_records)]
      else [(1, 10), (11, 25), (26, 50), (51, 100), (101, max_records)])"

text \<open>
  Lines 132-136: the loop of \<open>get_logical_color\<close> over \<open>enumerate(ranges)\<close>, which gives
  \<open>None\<close> when it runs to its end, and the function with its default.
\<close>

fun range_search :: "(int \<times> int) list \<Rightarrow> nat \<Rightarrow> int \<Rightarrow> nat option" where
  "range_search [] i records = None"
| "range_search ((min_val, max_val) # rs) i records =
     (if min_val \<le> records \<and> records \<le> max_val then Some (i + 1)
      else range_search rs (i + 1) records)"

definition get_logical_color :: "(int \<times> int) list \<Rightarrow> int \<Rightarrow> nat" where
  "get_logical_color rs records = (case range_search rs 0 records of Some t \<Rightarrow> t | None \<Rightarrow> 1)"

text \<open>Line 110: the largest total of a non-empty aggregate.\<close>

definition max_records :: "map_row list \<Rightarrow> int" where
  "max_records md = int (foldr max (map md_total_records md) 0)"

definition color_scale :: "map_row list \<Rightarrow> nat list" where
  "color_scale md =
     map (\<lambda>r. get_logical_color (ranges (max_records md)) (int (md_total_records r))) md"

section \<open>The scripts from the loaded data frame on\<close>

text \<open>A data frame: its columns in order, each a name with its values.\<close>

type_synonym dataframe = "(string \<times> cell list) list"

definition df_columns :: "dataframe \<Rightarrow> string list" where
  "df_columns df = map fst df"

definition df_col :: "dataframe \<Rightarrow> string \<Rightarrow> error + cell list" where
  "df_col df name = (case map_of df name of Some v \<Rightarrow> Inr v | None \<Rightarrow> Inl KeyError)"

definition bind_err :: "error + 'a \<Rightarrow> ('a \<Rightarrow> error + 'b) \<Rightarrow> error + 'b" where
  "bind_err m f = (case m of Inl e \<Rightarrow> Inl e | Inr x \<Rightarrow> f x)"

fun df_cols :: "dataframe \<Rightarrow> string list \<Rightarrow> error + cell list list" where
  "df_cols df [] = Inr []"
| "df_cols df (c # cs) =
     bind_err (df_col df c) (\<lambda>v. bind_err (df_cols df cs) (\<lambda>vs. Inr (v # vs)))"

text \<open>
  What a script printed about its columns, and how it ended: by \<open>exit()\<close>, which raises
  \<open>SystemExit\<close> with the code it was given (none here), by an exception nobody caught, or
  by running to its end with the aggregate it handed to the plot.
\<close>

datatype line =
    ErrorColumnsNotFound
  | ExpectedColumns "string list"
  | MissingColumns "string list"
  | AvailableColumns "string list"

datatype 'a outcome =
    SystemExit "int option" "line list"
  | Uncaught error
  | Completed 'a

text \<open>
  The status of the process: \<open>SystemExit\<close> without a code is a successful termination,
  status 0; a traceback ends with status 1.
\<close>

fun exit_status :: "'a outcome \<Rightarrow> int" where
  "exit_status (SystemExit None ls) = 0"
| "exit_status (SystemExit (Some n) ls) = n"
| "exit_status (Uncaught e) = 1"
| "exit_status (Completed r) = 0"

fun printed :: "'a outcome \<Rightarrow> line list" where
  "printed (SystemExit code ls) = ls"
| "printed (Uncaught e) = []"
| "printed (Completed r) = []"

fun finish :: "error + 'a \<Rightarrow> 'a outcome" where
  "finish (Inl e) = Uncaught e"
| "finish (Inr r) = Completed r"

definition column_wears_colors :: string where
  "column_wears_colors = ''Subject_Wears_Colors''"

definition column_admits_gang :: string where
  "column_admits_gang = ''Subject_Admits_Gang''"

definition column_race :: string where
  "column_race = ''Subject_Race_ID''"

definition column_zip :: string where
  "column_zip = ''address_zip''"

definition column_date :: string where
  "column_date = ''Subject_Create_Date''"

definition column_colors :: string where
  "column_colors = ''Subject_Wears_Colors''"

definition column_admits :: string where
  "column_admits = ''Subject_Admits_Gang''"

definition columns_to_track :: "string list" where
  "columns_to_track = [''Subject_Armed'', ''Subject_Felon'', ''Subject_Probation'']"

text \<open>colors.py, lines 38-70.\<close>

definition colors_main :: "dataframe \<Rightarrow> table outcome" where
  "colors_main df =
     (if column_wears_colors \<notin> set (df_columns df) \<or> column_admits_gang \<notin> set (df_columns df)
      then SystemExit None
             [ErrorColumnsNotFound, ExpectedColumns [column_wears_colors, column_admits_gang],
              AvailableColumns (df_columns df)]
      else finish (bind_err (df_col df column_wears_colors) (\<lambda>a.
                   bind_err (df_col df column_admits_gang) (\<lambda>b.
                   colors_frequency_table (zip a b)))))"

text \<open>gang_colors.py, lines 32-61.\<close>

definition gang_colors_main :: "dataframe \<Rightarrow> table outcome" where
  "gang_colors_main df =
     (if column_colors \<notin> set (df_columns df) \<or> column_admits \<notin> set (df_columns df)
      then SystemExit None
             [ErrorColumnsNotFound, ExpectedColumns [column_colors, column_admits],
              AvailableColumns (df_columns df)]
      else finish (bind_err (df_col df column_colors) (\<lambda>a.
                   bind_err (df_col df column_admits) (\<lambda>b.
                   Inr (contingency_table (zip a b))))))"

text \<open>race.py, lines 38-73.\<close>

definition race_main :: "dataframe \<Rightarrow> table outcome" where
  "race_main df =
     (if column_race \<notin> set (df_columns df) \<or> column_admits_gang \<notin> set (df_columns df)
      then SystemExit None
             [ErrorColumnsNotFound, ExpectedColumns [column_race, column_admits_gang],
              AvailableColumns (df_columns df)]
      else finish (bind_err (df_col df column_race) (\<lambda>r.
                   bind_err (df_col df column_admits_gang) (\<lambda>a.
                   race_frequency_table (zip r a)))))"

text \<open>heatmap.py, lines 52-138.\<close>

definition heatmap_main :: "dataframe \<Rightarrow> (map_row list \<times> nat list) outcome" where
  "heatmap_main df =
     (if column_zip \<notin> set (df_columns df) \<or> column_race \<notin> set (df_columns df)
      then SystemExit None
             [ErrorColumnsNotFound, ExpectedColumns [column_zip, column_race],
              AvailableColumns (df_columns df)]
      else finish (bind_err (df_col df column_zip) (\<lambda>z.
                   bind_err (df_col df column_race) (\<lambda>r.
                   Inr (map_data (zip z r), color_scale (map_data (zip z r)))))))"

text \<open>escalation.py, lines 50-86.\<close>

definition escalation_main :: "dataframe \<Rightarrow> trend_row list outcome" where
  "escalation_main df =
     (let required_columns = column_date # columns_to_track;
          missing_cols = filter (\<lambda>col. col \<notin> set (df_columns df)) required_columns
      in if missing_cols \<noteq> []
         then SystemExit None
                [ErrorColumnsNotFound, MissingColumns missing_cols,
                 AvailableColumns (df_columns df)]
         else finish (bind_err (df_col df column_date) (\<lambda>dates.
                      bind_err (dt_year dates) (\<lambda>years.
                      bind_err (df_cols df columns_to_track) (\<lambda>tracked.
                      Inr (trends_df years tracked))))))"

section \<open>The synthetic fallback data\<close>

text \<open>
  numpy's global generator is not part of the repository: it is a parameter. Its state
  when a script starts comes from the operating system's entropy; \<open>np_seed\<close> gives the
  state that \<open>np.random.seed\<close> sets, whatever the state was, and \<open>np_choice\<close> draws a
  sample with the given probabilities and returns the advanced state.
\<close>

record 'g np_random =
  np_seed :: "nat \<Rightarrow> 'g"
  np_choice :: "'g \<Rightarrow> cell list \<Rightarrow> rat list \<Rightarrow> nat \<Rightarrow> cell list \<times> 'g"

text \<open>colors.py, lines 24-32.\<close>

definition colors_fallback :: "'g np_random \<Rightarrow> 'g \<Rightarrow> dataframe" where
  "colors_fallback rng g =
     (let g = np_seed rng 42;
          data_size = 500;
          (wears, g) = np_choice rng g [Str ''Y'', NoneV, Str ''Y'', Str ''Y'']
                         [4 / 10, 2 / 10, 3 / 10, 1 / 10] data_size;
          (admits, g) = np_choice rng g [Str ''Y'', Str ''NULL'', NoneV]
                          [2 / 10, 5 / 10, 3 / 10] data_size
      in [(column_wears_colors, wears), (column_admits_gang, admits)])"

text \<open>gang_colors.py, lines 20-26: no call of \<open>np.random.seed\<close>.\<close>

definition gang_colors_fallback :: "'g np_random \<Rightarrow> 'g \<Rightarrow> dataframe" where
  "gang_colors_fallback rng g =
     (let data_size = 5000;
          (colors, g) = np_choice rng g [Str ''Y'', Str ''NULL'', Str ''N'']
                          [4 / 10, 2 / 10, 4 / 10] data_size;
          (admits, g) = np_choice rng g [Str ''Y'', Str ''NULL'', Str ''N'']
                          [3 / 10, 1 / 10, 6 / 10] data_size
      in [(column_colors, colors), (column_admits, admits)])"

text \<open>
  A small generator to run the fallbacks with: the state is a counter, and a draw
  takes the labels cyclically from the state on.
\<close>

definition counter_rng :: "nat np_random" where
  "counter_rng =
     \<lparr>np_seed = (\<lambda>n. n),
      np_choice = (\<lambda>g labels p n. (map (\<lambda>i. labels ! ((g + i) mod length labels)) [0..<n], g + n))\<rparr>"

section \<open>Strings: upper case and stripping\<close>

lemma py_upper_char_lower:
  assumes "97 \<le> (of_char a :: nat)" "(of_char a :: nat) \<le> 122"
  shows "py_upper_char a = c \<longleftrightarrow> (of_char a :: nat) = of_char c + 32"
proof -
  from assms have "(of_char a :: nat) - 32 < 256" by linarith
  then have "take_bit 8 ((of_char a :: nat) - 32) = (of_char a :: nat) - 32"
    by (simp add: take_bit_nat_eq_self)
  then have "char_of ((of_char a :: nat) - 32) = c \<longleftrightarrow> (of_char a :: nat) - 32 = of_char c"
    by (simp add: char_of_eq_iff)
  moreover have "py_upper_char a = char_of ((of_char a :: nat) - 32)"
    using assms by (simp add: py_upper_char_def)
  ultimately show ?thesis using assms by auto
qed

lemma py_upper_char_other:
  "\<not> (97 \<le> (of_char a :: nat) \<and> (of_char a :: nat) \<le> 122) \<Longrightarrow> py_upper_char a = a"
  by (auto simp: py_upper_char_def)

lemma not_space_of_upper:
  assumes "py_upper_char a = c" "65 \<le> (of_char c :: nat)" "(of_char c :: nat) \<le> 90"
  shows "\<not> py_isspace a"
proof (cases "97 \<le> (of_char a :: nat) \<and> (of_char a :: nat) \<le> 122")
  case True
  then show ?thesis by (auto simp: py_isspace_def)
next
  case False
  then have "a = c" using assms(1) py_upper_char_other by simp
  with assms show ?thesis by (auto simp: py_isspace_def)
qed

lemma str_replace_NULL_whole:
  assumes "py_upper t = ''NULL''"
  shows "str_replace_NULL repl t = repl"
proof -
  from assms have "length (py_upper t) = 4" by simp
  then have "length t = 4" by (simp add: py_upper_def)
  then obtain a b c d where t: "t = [a, b, c, d]"
    by (auto simp: length_Suc_conv numeral_eq_Suc)
  with assms show ?thesis by simp
qed

lemma py_strip_no_space:
  assumes "s \<noteq> []" "\<not> py_isspace (hd s)" "\<not> py_isspace (last s)"
  shows "py_strip s = s"
proof -
  from assms obtain x xs where s: "s = x # xs" by (cases s) auto
  with assms have 1: "dropWhile py_isspace s = s" by simp
  from assms have "rev s \<noteq> []" "\<not> py_isspace (hd (rev s))" by (auto simp: hd_rev)
  then have 2: "dropWhile py_isspace (rev s) = rev s" by (cases "rev s") auto
  show ?thesis by (simp add: py_strip_def 1 2)
qed

lemma NULL_any_case_no_strip:
  assumes "py_upper t = ''NULL''"
  shows "py_strip t = t"
proof -
  from assms have "length (py_upper t) = 4" by simp
  then have "length t = 4" by (simp add: py_upper_def)
  then obtain a b c d where t: "t = [a, b, c, d]"
    by (auto simp: length_Suc_conv numeral_eq_Suc)
  with assms have "py_upper_char a = CHR ''N''" "py_upper_char d = CHR ''L''"
    by (simp_all add: py_upper_def)
  then have "\<not> py_isspace a" "\<not> py_isspace d"
    by (auto dest!: not_space_of_upper)
  then show ?thesis using t by (intro py_strip_no_space) simp_all
qed

section \<open>The normalizers, value by value\<close>

lemma standardize_value_eq:
  "standardize_value c = (if py_strip (py_upper (py_str c)) = ''Y'' then Str ''Y'' else Str ''N'')"
  by (simp add: standardize_value_def astype_str_def replace_dict_def fillna_def isna_def Let_def)

lemma isin_YN: "isin [''Y'', ''N''] c = (c = Str ''Y'' \<or> c = Str ''N'')"
  by (cases c) auto

lemma colors_prepare_values:
  "(a, b) \<in> set (colors_prepare rows) \<Longrightarrow> a \<in> {Str ''Y'', Str ''N''} \<and> b \<in> {Str ''Y'', Str ''N''}"
  by (auto simp: colors_prepare_def colors_filter_def isin_YN)

lemma colors_clean_other:
  "s \<noteq> ''NULL'' \<Longrightarrow> colors_clean (Str s) = Str s"
  by (simp add: colors_clean_def fillna_def isna_def replace_value_def)

section \<open>C1: the collapse of values that are not Y\<close>

lemma colors_filter_drop:
  assumes "\<not> (isin [''Y'', ''N''] a \<and> isin [''Y'', ''N''] b)"
  shows "colors_filter (rows @ (a, b) # rows') = colors_filter (rows @ rows')"
  using assms by (simp add: colors_filter_def)

text \<open>
  Claim C1 at its failing inputs: a string of a binary column that is not \<open>Y\<close>, \<open>N\<close> or
  \<open>NULL\<close>. The cleaning of colors.py (lines 53-54) leaves the string as it is, although
  the comment of line 52 says that all values other than \<open>Y\<close> are treated as the single
  category \<open>N\<close>, and the filter of line 57 then removes the record, in whichever of the
  two columns the string stands. \<open>standardize_column\<close> of gang_colors.py maps the same
  string to \<open>Y\<close> or \<open>N\<close> and removes nothing.
\<close>

theorem colors_removes_unrecognized:
  assumes "s \<noteq> ''Y''" "s \<noteq> ''N''" "s \<noteq> ''NULL''"
  shows "colors_clean (Str s) = Str s
     \<and> colors_prepare (rows @ (Str s, b) # rows') = colors_prepare (rows @ rows')
     \<and> colors_prepare (rows @ (a, Str s) # rows') = colors_prepare (rows @ rows')
     \<and> standardize_value (Str s) = (if py_strip (py_upper s) = ''Y'' then Str ''Y'' else Str ''N'')"
proof -
  have c: "colors_clean (Str s) = Str s" using assms(3) by (rule colors_clean_other)
  have n: "\<not> isin [''Y'', ''N''] (Str s)" using assms by simp
  have 1: "colors_prepare (rows @ (Str s, b) # rows') = colors_prepare (rows @ rows')"
    using n by (simp add: colors_prepare_def c colors_filter_drop)
  have 2: "colors_prepare (rows @ (a, Str s) # rows') = colors_prepare (rows @ rows')"
    using n by (simp add: colors_prepare_def c colors_filter_drop)
  show ?thesis using c 1 2 by (simp add: standardize_value_eq)
qed

text \<open>
  Claim C1, witness: the string \<open>maybe\<close> beside one record with two values \<open>Y\<close>. The
  record with \<open>maybe\<close> is removed by colors.py; gang_colors.py maps \<open>maybe\<close> to \<open>N\<close>.
\<close>

theorem colors_removes_unrecognized_witness:
  "colors_clean (Str ''maybe'') = Str ''maybe''
   \<and> colors_prepare [(Str ''Y'', Str ''Y''), (Str ''maybe'', Str ''Y'')] = [(Str ''Y'', Str ''Y'')]
   \<and> colors_prepare [(Str ''Y'', Str ''Y''), (Str ''Y'', Str ''maybe'')] = [(Str ''Y'', Str ''Y'')]
   \<and> standardize_value (Str ''maybe'') = Str ''N''"
proof -
  have e: "py_strip (py_upper ''maybe'') \<noteq> ''Y''"
    by (simp add: py_strip_def py_upper_def py_upper_char_def py_isspace_def char_of_eq_iff)
  have p: "colors_prepare [(Str ''Y'', Str ''Y'')] = [(Str ''Y'', Str ''Y'')]"
    by (simp add: colors_prepare_def colors_filter_def colors_clean_def fillna_def isna_def replace_value_def)
  have s: "''maybe'' \<noteq> ''Y''" "''maybe'' \<noteq> ''N''" "''maybe'' \<noteq> ''NULL''" by simp_all
  from colors_removes_unrecognized [OF s, of "[(Str ''Y'', Str ''Y'')]" "Str ''Y''" "[]" "Str ''Y''"]
  show ?thesis using e p by simp
qed

section \<open>C2: the collapse of null markers\<close>

lemma colors_clean_null: "isna c \<or> c = Str ''NULL'' \<Longrightarrow> colors_clean c = Str ''N''"
  by (auto simp: colors_clean_def fillna_def replace_value_def)

lemma standardize_value_null:
  assumes "isna c \<or> (\<exists>s. c = Str s \<and> py_strip (py_upper s) \<in> {[], ''NULL''})"
  shows "standardize_value c = Str ''N''"
proof -
  have e: "py_strip (py_upper ''None'') \<noteq> ''Y''" "py_strip (py_upper ''nan'') \<noteq> ''Y''"
      "py_strip (py_upper ''NaT'') \<noteq> ''Y''"
    by (simp_all add: py_strip_def py_upper_def py_upper_char_def py_isspace_def char_of_eq_iff)
  from assms e show ?thesis by (auto simp: standardize_value_eq isna_def)
qed

lemma race_clean_nan: "race_clean NaN = Str ''Unknown''" "admits_gang_clean NaN = Str ''N''"
  by (simp_all add: race_clean_def admits_gang_clean_def astype_str_def py_strip_def py_isspace_def
      py_upper_def py_upper_char_def char_of_eq_iff fillna_def isna_def replace_value_def)

lemma race_clean_NULL:
  assumes "py_upper (py_strip s) = ''NULL''"
  shows "race_clean (Str s) = Str ''Unknown''" "admits_gang_clean (Str s) = Str ''N''"
  using str_replace_NULL_whole [OF assms]
  by (simp_all add: race_clean_def admits_gang_clean_def astype_str_def fillna_def isna_def replace_value_def)

text \<open>
  Claim C2 at its failing inputs. In colors.py \<open>replace('NULL', 'N')\<close> compares the whole
  value exactly, so the marker in another letter case, \<open>Null\<close>, is left as it is and its
  record removed by the filter of line 57, while gang_colors.py and race.py map it to \<open>N\<close>.
  In race.py (and the race column of heatmap.py) \<open>astype(str)\<close> comes first and turns
  \<open>None\<close>, which the fallback of race.py draws for both columns, into the text \<open>None\<close>;
  the \<open>fillna\<close> that follows finds nothing to fill and only the text \<open>nan\<close> is replaced,
  so a missing value becomes the category \<open>None\<close> and not \<open>Unknown\<close> or \<open>N\<close>, against the
  comments of lines 50 and 55. The table of race.py for one such record has the row
  \<open>None\<close> with two zeros. NaN is mapped by race.py, and \<open>None\<close> by colors.py and
  gang_colors.py.
\<close>

theorem null_markers_left_unchanged:
  "colors_clean (Str ''Null'') = Str ''Null''
   \<and> colors_prepare [(Str ''Y'', Str ''Null'')] = []
   \<and> standardize_value (Str ''Null'') = Str ''N''
   \<and> admits_gang_clean (Str ''Null'') = Str ''N''
   \<and> race_clean NoneV = Str ''None''
   \<and> admits_gang_clean NoneV = Str ''None''
   \<and> race_frequency_table [(NoneV, NoneV)]
       = Inr \<lparr>tbl_index = [''None''], tbl_columns = [''N'', ''Y''], tbl_values = [[0, 0]]\<rparr>
   \<and> race_clean NaN = Str ''Unknown''
   \<and> admits_gang_clean NaN = Str ''N''
   \<and> colors_clean NoneV = Str ''N''
   \<and> standardize_value NoneV = Str ''N''"
proof -
  have u: "py_upper (py_strip ''Null'') = ''NULL''" "py_strip (py_upper ''Null'') = ''NULL''"
    by (simp_all add: py_strip_def py_upper_def py_upper_char_def py_isspace_def char_of_eq_iff)
  have 1: "colors_clean (Str ''Null'') = Str ''Null''"
    by (simp add: colors_clean_other)
  have 2: "colors_prepare [(Str ''Y'', Str ''Null'')] = []"
    by (simp add: colors_prepare_def colors_filter_def 1)
  have 3: "standardize_value (Str ''Null'') = Str ''N''"
    by (rule standardize_value_null) (simp add: u)
  have 4: "admits_gang_clean (Str ''Null'') = Str ''N''"
    by (rule race_clean_NULL) (rule u)
  have 5: "race_clean NoneV = Str ''None''" "admits_gang_clean NoneV = Str ''None''"
    by (simp_all add: race_clean_def admits_gang_clean_def astype_str_def py_strip_def py_isspace_def
        py_upper_def py_upper_char_def char_of_eq_iff fillna_def isna_def replace_value_def)
  have 6: "race_frequency_table [(NoneV, NoneV)]
       = Inr \<lparr>tbl_index = [''None''], tbl_columns = [''N'', ''Y''], tbl_values = [[0, 0]]\<rparr>"
    by (simp add: race_frequency_table_def race_prepare_def 5 crosstab_def crosstab_pairs_def
        add_column_def select_columns_def notna_def isna_def Let_def)
  have 7: "colors_clean NoneV = Str ''N''" "standardize_value NoneV = Str ''N''"
    by (simp_all add: colors_clean_null standardize_value_null isna_def)
  show ?thesis using 1 2 3 4 5 6 7 race_clean_nan by simp
qed

section \<open>Counting the cells of a cross-tabulation\<close>

lemma sum_count_list_filter:
  "finite S \<Longrightarrow> sum (count_list ps) S = length (filter (\<lambda>x. x \<in> S) ps)"
proof (induction ps)
  case Nil
  then show ?case by simp
next
  case (Cons p ps)
  have "sum (count_list (p # ps)) S = (\<Sum>x\<in>S. count_list ps x + (if x = p then 1 else 0))"
    by (intro sum.cong) auto
  also have "\<dots> = sum (count_list ps) S + (if p \<in> S then 1 else 0)"
    using Cons.prems by (simp add: sum.distrib)
  finally show ?case using Cons by simp
qed

lemma sum_cells:
  assumes "distinct xs" "distinct ys"
  shows "sum_list (map (\<lambda>r. sum_list (map (\<lambda>c. count_list ps (r, c)) ys)) xs)
         = length (filter (\<lambda>(r, c). r \<in> set xs \<and> c \<in> set ys) ps)"
proof -
  have "sum_list (map (\<lambda>r. sum_list (map (\<lambda>c. count_list ps (r, c)) ys)) xs)
        = (\<Sum>r\<in>set xs. \<Sum>c\<in>set ys. count_list ps (r, c))"
    using assms by (simp add: sum_list_distinct_conv_sum_set)
  also have "\<dots> = sum (count_list ps) (set xs \<times> set ys)"
    by (simp add: sum.cartesian_product)
  also have "\<dots> = length (filter (\<lambda>x. x \<in> set xs \<times> set ys) ps)"
    by (rule sum_count_list_filter) simp
  also have "(\<lambda>x. x \<in> set xs \<times> set ys) = (\<lambda>(r, c). r \<in> set xs \<and> c \<in> set ys)"
    by auto
  finally show ?thesis .
qed

lemma crosstab_fields:
  "tbl_index (crosstab rows) = sort (remdups (map fst (crosstab_pairs rows)))"
  "tbl_columns (crosstab rows) = sort (remdups (map snd (crosstab_pairs rows)))"
  "tbl_values (crosstab rows) =
     map (\<lambda>r. map (\<lambda>c. count_list (crosstab_pairs rows) (r, c)) (tbl_columns (crosstab rows)))
       (tbl_index (crosstab rows))"
  by (simp_all add: crosstab_def Let_def)

lemma crosstab_sets:
  "set (tbl_index (crosstab rows)) = fst ` set (crosstab_pairs rows)"
  "set (tbl_columns (crosstab rows)) = snd ` set (crosstab_pairs rows)"
  "distinct (tbl_index (crosstab rows))" "distinct (tbl_columns (crosstab rows))"
  "sorted (tbl_index (crosstab rows))" "sorted (tbl_columns (crosstab rows))"
  by (simp_all add: crosstab_fields)

lemma table_sum_crosstab: "table_sum (crosstab rows) = length (crosstab_pairs rows)"
proof -
  have "table_sum (crosstab rows)
        = length (filter (\<lambda>(r, c). r \<in> set (tbl_index (crosstab rows))
                                  \<and> c \<in> set (tbl_columns (crosstab rows))) (crosstab_pairs rows))"
    unfolding table_sum_def crosstab_fields(3)
    by (simp add: o_def sum_cells crosstab_sets)
  also have "\<dots> = length (crosstab_pairs rows)"
    by (intro arg_cong [where f = length] filter_True) (auto simp: crosstab_sets intro: rev_image_eqI)
  finally show ?thesis .
qed

section \<open>The tables of the three scripts\<close>

lemma map_of_zip_row:
  "map_of (zip xs (map f xs)) x = (if x \<in> set xs then Some (f x) else None)"
  by (simp add: map_of_zip_map)

lemma standardize_value_Str: "standardize_value c = Str ''Y'' \<or> standardize_value c = Str ''N''"
  by (simp add: standardize_value_eq)

lemma crosstab_pairs_all:
  assumes "\<forall>(a, b) \<in> set rows. notna a \<and> notna b"
  shows "crosstab_pairs rows = map (\<lambda>(a, b). (py_str a, py_str b)) rows"
proof -
  have "filter (\<lambda>(a, b). notna a \<and> notna b) rows = rows"
    using assms by (intro filter_True) auto
  then show ?thesis by (simp add: crosstab_pairs_def)
qed

lemma notna_Str [simp]: "notna (Str s)"
  by (simp add: notna_def isna_def)

lemma contingency_table_sum: "table_sum (contingency_table rows) = length rows"
proof -
  let ?z = "zip (standardize_column (map fst rows)) (standardize_column (map snd rows))"
  have "\<forall>(a, b) \<in> set ?z. notna a \<and> notna b"
  proof (clarify)
    fix a b assume "(a, b) \<in> set ?z"
    then have "a \<in> set (standardize_column (map fst rows))" "b \<in> set (standardize_column (map snd rows))"
      by (auto dest: set_zip_leftD set_zip_rightD)
    then obtain x y where "a = standardize_value x" "b = standardize_value y"
      by (auto simp: standardize_column_def)
    then show "notna a \<and> notna b"
      using standardize_value_Str [of x] standardize_value_Str [of y] by auto
  qed
  then have "length (crosstab_pairs ?z) = length ?z"
    by (simp add: crosstab_pairs_all)
  then show ?thesis
    by (simp add: contingency_table_def table_sum_crosstab standardize_column_def)
qed

lemma colors_pairs:
  "crosstab_pairs (colors_prepare rows) = map (\<lambda>(a, b). (py_str a, py_str b)) (colors_prepare rows)"
  by (rule crosstab_pairs_all) (auto dest!: colors_prepare_values)

lemma colors_pairs_YN:
  "(r, c) \<in> set (crosstab_pairs (colors_prepare rows)) \<Longrightarrow> r \<in> {''N'', ''Y''} \<and> c \<in> {''N'', ''Y''}"
  unfolding colors_pairs by (auto dest!: colors_prepare_values)

lemma reindex_values:
  assumes "tbl_values t = map (\<lambda>r. map (g r) (tbl_columns t)) (tbl_index t)"
    and "\<forall>r \<in> set new. r \<notin> set (tbl_index t) \<longrightarrow> (\<forall>c \<in> set (tbl_columns t). g r c = fill)"
  shows "tbl_values (reindex_index new fill t) = map (\<lambda>r. map (g r) (tbl_columns t)) new"
proof -
  have "(case map_of (zip (tbl_index t) (tbl_values t)) r of
           Some row \<Rightarrow> row | None \<Rightarrow> replicate (length (tbl_columns t)) fill)
        = map (g r) (tbl_columns t)" if "r \<in> set new" for r
  proof (cases "r \<in> set (tbl_index t)")
    case True
    then show ?thesis by (simp add: assms(1) map_of_zip_row)
  next
    case False
    with that assms(2) have "map (g r) (tbl_columns t) = map (\<lambda>c. fill) (tbl_columns t)"
      by (intro map_cong) auto
    with False show ?thesis by (simp add: assms(1) map_of_zip_row map_replicate_const)
  qed
  then show ?thesis by (simp add: reindex_index_def)
qed

lemma select_values:
  assumes "tbl_values t = map (\<lambda>r. map (g r) (tbl_columns t)) (tbl_index t)"
    and "set cs \<subseteq> set (tbl_columns t)"
  shows "select_columns cs t =
           Inr \<lparr>tbl_index = tbl_index t, tbl_columns = cs,
                tbl_values = map (\<lambda>r. map (g r) cs) (tbl_index t)\<rparr>"
proof -
  have "map (\<lambda>c. case map_of (zip (tbl_columns t) (map (g r) (tbl_columns t))) c of
                    Some v \<Rightarrow> v | None \<Rightarrow> 0) cs = map (g r) cs" for r
    using assms(2) by (intro map_cong) (auto simp: map_of_zip_row)
  then show ?thesis using assms by (simp add: select_columns_def o_def)
qed

lemma add_column_values:
  assumes "tbl_values t = map (\<lambda>r. map (g r) (tbl_columns t)) (tbl_index t)"
    and "\<forall>r \<in> set (tbl_index t). g r name = v"
  shows "tbl_values (add_column name v t)
         = map (\<lambda>r. map (g r) (tbl_columns (add_column name v t))) (tbl_index (add_column name v t))"
  using assms by (simp add: add_column_def)

lemma colors_frequency_table_sum:
  "\<exists>t. colors_frequency_table rows = Inr t \<and> tbl_index t = [''N'', ''Y'']
       \<and> table_sum t = length (colors_prepare rows)"
proof -
  let ?ps = "crosstab_pairs (colors_prepare rows)"
  let ?ct = "crosstab (colors_prepare rows)"
  let ?g = "\<lambda>r c. count_list ?ps (r, c)"
  let ?cols = "tbl_columns ?ct"
  let ?re = "reindex_index [''N'', ''Y''] 0 ?ct"
  have all: "length (filter (\<lambda>(r, c). r \<in> set [''N'', ''Y''] \<and> c \<in> set ys) ?ps) = length ?ps"
    if "set ys \<supseteq> snd ` set ?ps \<or> set ys = {''N'', ''Y''}" for ys
    using that by (intro arg_cong [where f = length] filter_True) (auto dest: colors_pairs_YN)
  have re_vals: "tbl_values ?re = map (\<lambda>r. map (?g r) ?cols) [''N'', ''Y'']"
    by (rule reindex_values [OF crosstab_fields(3)])
       (auto simp: crosstab_sets count_list_0_iff intro: rev_image_eqI)
  have re_idx: "tbl_index ?re = [''N'', ''Y'']" and re_cols: "tbl_columns ?re = ?cols"
    by (simp_all add: reindex_index_def)
  show ?thesis
  proof (cases "''N'' \<in> set ?cols \<and> ''Y'' \<in> set ?cols")
    case True
    have "select_columns [''N'', ''Y''] ?re =
            Inr \<lparr>tbl_index = tbl_index ?re, tbl_columns = [''N'', ''Y''],
                 tbl_values = map (\<lambda>r. map (?g r) [''N'', ''Y'']) (tbl_index ?re)\<rparr>"
      by (rule select_values) (use True in \<open>simp_all add: re_vals re_idx re_cols\<close>)
    moreover have "sum_list (map (\<lambda>r. sum_list (map (?g r) [''N'', ''Y''])) [''N'', ''Y'']) = length ?ps"
      using sum_cells [of "[''N'', ''Y'']" "[''N'', ''Y'']" ?ps] all [of "[''N'', ''Y'']"] by simp
    ultimately show ?thesis using True
      by (simp add: colors_frequency_table_def Let_def re_cols re_idx table_sum_def o_def colors_pairs)
  next
    case False
    have "sum_list (map (\<lambda>r. sum_list (map (?g r) ?cols)) [''N'', ''Y'']) = length ?ps"
      using sum_cells [of "[''N'', ''Y'']" ?cols ?ps] all [of ?cols] by (simp add: crosstab_sets)
    moreover have "colors_frequency_table rows = Inr ?re"
      using False by (auto simp: colors_frequency_table_def Let_def re_cols)
    ultimately show ?thesis
      by (simp add: re_idx re_vals table_sum_def o_def colors_pairs)
  qed
qed

lemma race_clean_Str: "\<exists>s. race_clean c = Str s"
  by (simp add: race_clean_def astype_str_def fillna_def isna_def replace_value_def)

lemma admits_gang_clean_Str: "\<exists>s. admits_gang_clean c = Str s"
  by (simp add: admits_gang_clean_def astype_str_def fillna_def isna_def replace_value_def)

lemma race_pairs:
  "crosstab_pairs (race_prepare rows)
   = map (\<lambda>(r, a). (py_str (race_clean r), py_str (admits_gang_clean a))) rows"
proof -
  have "\<forall>(a, b) \<in> set (race_prepare rows). notna a \<and> notna b"
    using race_clean_Str admits_gang_clean_Str
    by (auto simp: race_prepare_def) (metis notna_Str)+
  then show ?thesis
    by (simp add: crosstab_pairs_all race_prepare_def o_def case_prod_unfold)
qed

lemma race_frequency_table_eq:
  "race_frequency_table rows =
     Inr \<lparr>tbl_index = tbl_index (crosstab (race_prepare rows)), tbl_columns = [''N'', ''Y''],
          tbl_values = map (\<lambda>r. map (\<lambda>c. count_list (crosstab_pairs (race_prepare rows)) (r, c))
                                  [''N'', ''Y''])
                         (tbl_index (crosstab (race_prepare rows)))\<rparr>"
proof -
  let ?ps = "crosstab_pairs (race_prepare rows)"
  let ?t0 = "crosstab (race_prepare rows)"
  let ?g = "\<lambda>r c. count_list ?ps (r, c)"
  let ?t1 = "if ''N'' \<notin> set (tbl_columns ?t0) then add_column ''N'' 0 ?t0 else ?t0"
  let ?t2 = "if ''Y'' \<notin> set (tbl_columns ?t1) then add_column ''Y'' 0 ?t1 else ?t1"
  have zero: "?g r c = 0" if "c \<notin> set (tbl_columns ?t0)" for r c
    using that by (auto simp: crosstab_sets count_list_0_iff intro: rev_image_eqI)
  have i1: "tbl_index ?t1 = tbl_index ?t0" by (simp add: add_column_def)
  have c1: "set (tbl_columns ?t1) = insert ''N'' (set (tbl_columns ?t0))"
    by (auto simp: add_column_def)
  have v1: "tbl_values ?t1 = map (\<lambda>r. map (?g r) (tbl_columns ?t1)) (tbl_index ?t1)"
  proof (cases "''N'' \<notin> set (tbl_columns ?t0)")
    case True
    then show ?thesis
      using add_column_values [of ?t0 ?g "''N''" 0, OF crosstab_fields(3)] zero by simp
  next
    case False
    then show ?thesis using crosstab_fields(3) [of "race_prepare rows"] by simp
  qed
  have i2: "tbl_index ?t2 = tbl_index ?t0" using i1 by (simp add: add_column_def)
  have c2: "set (tbl_columns ?t2) = insert ''Y'' (insert ''N'' (set (tbl_columns ?t0)))"
    using c1 by (auto simp: add_column_def)
  have v2: "tbl_values ?t2 = map (\<lambda>r. map (?g r) (tbl_columns ?t2)) (tbl_index ?t2)"
  proof (cases "''Y'' \<notin> set (tbl_columns ?t1)")
    case True
    then have "''Y'' \<notin> set (tbl_columns ?t0)" using c1 by simp
    then have "\<forall>r\<in>set (tbl_index ?t1). ?g r ''Y'' = 0" using zero by simp
    from add_column_values [of ?t1 ?g "''Y''" 0, OF v1 this] True show ?thesis by simp
  next
    case False
    then show ?thesis using v1 by simp
  qed
  have "select_columns [''N'', ''Y''] ?t2 =
          Inr \<lparr>tbl_index = tbl_index ?t2, tbl_columns = [''N'', ''Y''],
               tbl_values = map (\<lambda>r. map (?g r) [''N'', ''Y'']) (tbl_index ?t2)\<rparr>"
    by (rule select_values [OF v2]) (simp add: c2)
  then show ?thesis unfolding i2 by (simp add: race_frequency_table_def Let_def)
qed

lemma race_frequency_table_sum:
  "\<exists>t. race_frequency_table rows = Inr t \<and> tbl_columns t = [''N'', ''Y'']
       \<and> table_sum t = length (filter (\<lambda>(r, a). admits_gang_clean a \<in> {Str ''N'', Str ''Y''}) rows)"
proof -
  let ?ps = "crosstab_pairs (race_prepare rows)"
  let ?idx = "tbl_index (crosstab (race_prepare rows))"
  have "sum_list (map (\<lambda>r. sum_list (map (\<lambda>c. count_list ?ps (r, c)) [''N'', ''Y''])) ?idx)
        = length (filter (\<lambda>(r, c). r \<in> set ?idx \<and> c \<in> set [''N'', ''Y'']) ?ps)"
    by (rule sum_cells) (simp_all add: crosstab_sets)
  also have "filter (\<lambda>(r, c). r \<in> set ?idx \<and> c \<in> set [''N'', ''Y'']) ?ps
             = filter (\<lambda>(r, c). c \<in> {''N'', ''Y''}) ?ps"
    by (intro filter_cong) (auto simp: crosstab_sets intro: rev_image_eqI)
  also have "length \<dots> = length (filter (\<lambda>(r, a). admits_gang_clean a \<in> {Str ''N'', Str ''Y''}) rows)"
  proof -
    have "(py_str (admits_gang_clean a) \<in> {''N'', ''Y''}) = (admits_gang_clean a \<in> {Str ''N'', Str ''Y''})" for a
      using admits_gang_clean_Str [of a] by auto
    then show ?thesis
      by (simp add: race_pairs filter_map o_def case_prod_unfold)
  qed
  finally show ?thesis
    by (simp add: race_frequency_table_eq table_sum_def o_def)
qed

section \<open>C3: the sum of the cells\<close>

text \<open>
  Claim C3, as stated, fails on race.py: a record whose race and admission value are
  both cleaned to strings, the admission value to \<open>maybe\<close>, is counted in no cell, since
  line 73 keeps the columns \<open>N\<close> and \<open>Y\<close> only. The table of one such record sums to 0.
\<close>

theorem race_table_drops_other_labels:
  "race_clean (Str ''White'') = Str ''White'' \<and> admits_gang_clean (Str ''maybe'') = Str ''maybe''
   \<and> race_frequency_table [(Str ''White'', Str ''maybe'')]
       = Inr \<lparr>tbl_index = [''White''], tbl_columns = [''N'', ''Y''], tbl_values = [[0, 0]]\<rparr>
   \<and> table_sum \<lparr>tbl_index = [''White''], tbl_columns = [''N'', ''Y''], tbl_values = [[0, 0]]\<rparr>
       \<noteq> length [(Str ''White'', Str ''maybe'')]"
proof -
  have c: "race_clean (Str ''White'') = Str ''White''" "admits_gang_clean (Str ''maybe'') = Str ''maybe''"
    by (simp_all add: race_clean_def admits_gang_clean_def astype_str_def py_strip_def py_isspace_def
        py_upper_def py_upper_char_def char_of_eq_iff fillna_def isna_def replace_value_def)
  have p: "crosstab_pairs (race_prepare [(Str ''White'', Str ''maybe'')]) = [(''White'', ''maybe'')]"
    by (simp add: race_pairs c)
  have "race_frequency_table [(Str ''White'', Str ''maybe'')]
       = Inr \<lparr>tbl_index = [''White''], tbl_columns = [''N'', ''Y''], tbl_values = [[0, 0]]\<rparr>"
    by (simp add: race_frequency_table_eq crosstab_fields p)
  then show ?thesis using c by (simp add: table_sum_def)
qed

text \<open>
  Claim C3, amended: the cells of the table sum to the number of the input records in
  gang_colors.py, to the number of the records that the filter of line 57 keeps in
  colors.py, and in race.py to the number of the records whose cleaned admission value
  is \<open>N\<close> or \<open>Y\<close>; a record of race.py with another admission label is in no cell. None
  of the three tables raises an error.
\<close>

theorem table_sum_counts_kept_records:
  "table_sum (contingency_table rows) = length rows
   \<and> (\<exists>t. colors_frequency_table rows = Inr t
          \<and> table_sum t = length (colors_prepare rows))
   \<and> (\<exists>t. race_frequency_table rows = Inr t
          \<and> table_sum t = length (filter (\<lambda>(r, a). admits_gang_clean a \<in> {Str ''N'', Str ''Y''}) rows))"
  using contingency_table_sum [of rows] colors_frequency_table_sum [of rows]
    race_frequency_table_sum [of rows]
  by blast

text \<open>
  Claim C3, witness: two records, one with the admission value \<open>maybe\<close>. gang_colors.py
  counts both, colors.py and race.py count one.
\<close>

theorem table_sum_counts_kept_records_witness:
  "table_sum (contingency_table [(Str ''Y'', Str ''maybe''), (NaN, Str ''Y'')]) = 2
   \<and> (\<exists>t. colors_frequency_table [(Str ''Y'', Str ''maybe''), (NaN, Str ''Y'')] = Inr t \<and> table_sum t = 1)
   \<and> (\<exists>t. race_frequency_table [(Str ''Y'', Str ''maybe''), (NaN, Str ''Y'')] = Inr t \<and> table_sum t = 1)"
proof -
  let ?rows = "[(Str ''Y'', Str ''maybe''), (NaN, Str ''Y'')]"
  have 1: "colors_prepare ?rows = [(Str ''N'', Str ''Y'')]"
    by (simp add: colors_prepare_def colors_filter_def colors_clean_def fillna_def isna_def replace_value_def)
  have 2: "admits_gang_clean (Str ''maybe'') = Str ''maybe''" "admits_gang_clean (Str ''Y'') = Str ''Y''"
    by (simp_all add: admits_gang_clean_def astype_str_def py_strip_def py_isspace_def
        py_upper_def py_upper_char_def char_of_eq_iff fillna_def isna_def replace_value_def)
  show ?thesis using table_sum_counts_kept_records [of ?rows] by (simp add: 1 2)
qed

section \<open>C4: the labels of the table\<close>

text \<open>
  Claim C4 at a failing input: two records of which none admits gang membership. The
  table of colors.py has the rows \<open>N\<close> and \<open>Y\<close> but the single column \<open>N\<close>: line 69
  reorders the columns only when both are there and never adds one, so the label \<open>Y\<close>
  that does not occur has no column of zeros. The table of gang_colors.py, which is not
  reindexed at all, has only the labels that occur.
\<close>

theorem colors_table_misses_absent_column:
  "colors_frequency_table [(Str ''Y'', Str ''N''), (Str ''N'', NaN)]
     = Inr \<lparr>tbl_index = [''N'', ''Y''], tbl_columns = [''N''], tbl_values = [[1], [1]]\<rparr>
   \<and> contingency_table [(Str ''Y'', Str ''Y'')]
     = \<lparr>tbl_index = [''Y''], tbl_columns = [''Y''], tbl_values = [[1]]\<rparr>"
proof -
  have 1: "colors_prepare [(Str ''Y'', Str ''N''), (Str ''N'', NaN)]
           = [(Str ''Y'', Str ''N''), (Str ''N'', Str ''N'')]"
    by (simp add: colors_prepare_def colors_filter_def colors_clean_def fillna_def isna_def replace_value_def)
  have p: "crosstab_pairs [(Str ''Y'', Str ''N''), (Str ''N'', Str ''N'')] = [(''Y'', ''N''), (''N'', ''N'')]"
    by (simp add: crosstab_pairs_def)
  have a: "colors_frequency_table [(Str ''Y'', Str ''N''), (Str ''N'', NaN)]
     = Inr \<lparr>tbl_index = [''N'', ''Y''], tbl_columns = [''N''], tbl_values = [[1], [1]]\<rparr>"
    by (simp add: colors_frequency_table_def Let_def 1 crosstab_def p reindex_index_def)
  have e: "py_strip (py_upper ''Y'') = ''Y''"
    by (simp add: py_strip_def py_upper_def py_upper_char_def py_isspace_def char_of_eq_iff)
  have b: "contingency_table [(Str ''Y'', Str ''Y'')]
     = \<lparr>tbl_index = [''Y''], tbl_columns = [''Y''], tbl_values = [[1]]\<rparr>"
    by (simp add: contingency_table_def standardize_column_def standardize_value_eq e crosstab_def
        crosstab_pairs_def Let_def)
  show ?thesis using a b by simp
qed

section \<open>The geographic aggregate: totals and legend tiers\<close>

lemma ranges_cover:
  assumes "1 \<le> k" "k \<le> m"
  shows "length (filter (\<lambda>(lo, hi). lo \<le> k \<and> k \<le> hi) (ranges m)) = 1"
  using assms by (auto simp: ranges_def)

lemma range_search_ranges:
  assumes "1 \<le> k" "k \<le> m"
  shows "\<exists>t. range_search (ranges m) 0 k = Some t \<and> 1 \<le> t \<and> t \<le> 5"
  using assms by (auto simp: ranges_def)

lemma zip_index_values:
  assumes "(z, counts) \<in> set (zip (tbl_index (crosstab rows)) (tbl_values (crosstab rows)))"
  shows "z \<in> set (tbl_index (crosstab rows))"
    and "counts = map (\<lambda>c. count_list (crosstab_pairs rows) (z, c)) (tbl_columns (crosstab rows))"
proof -
  from assms show "z \<in> set (tbl_index (crosstab rows))" by (rule set_zip_leftD)
  from assms show "counts = map (\<lambda>c. count_list (crosstab_pairs rows) (z, c)) (tbl_columns (crosstab rows))"
    unfolding crosstab_fields(3) by (auto simp: zip_map2 zip_same_conv_map)
qed

lemma row_sum:
  assumes "distinct ys" "snd ` set ps \<subseteq> set ys"
  shows "sum_list (map (\<lambda>c. count_list ps (z, c)) ys) = length (filter (\<lambda>(a, b). a = z) ps)"
proof -
  have "sum_list (map (\<lambda>c. count_list ps (z, c)) ys)
        = length (filter (\<lambda>(r, c). r \<in> set [z] \<and> c \<in> set ys) ps)"
    using sum_cells [of "[z]" ys ps] assms(1) by simp
  also have "filter (\<lambda>(r, c). r \<in> set [z] \<and> c \<in> set ys) ps = filter (\<lambda>(a, b). a = z) ps"
    using assms(2) by (intro filter_cong) auto
  finally show ?thesis .
qed

lemma crosstab_row_sum:
  "sum_list (map (\<lambda>c. count_list (crosstab_pairs rows) (z, c)) (tbl_columns (crosstab rows)))
   = length (filter (\<lambda>(a, b). a = z) (crosstab_pairs rows))"
  by (rule row_sum) (simp_all add: crosstab_sets)

lemma map_data_row:
  assumes "r \<in> set (map_data rows)"
  shows "md_zip r \<in> fst ` set (crosstab_pairs (heatmap_prepare rows))"
    and "md_total_records r
         = length (filter (\<lambda>(a, b). a = md_zip r) (crosstab_pairs (heatmap_prepare rows)))"
proof -
  let ?ct = "crosstab (heatmap_prepare rows)"
  from assms obtain z counts where zc: "(z, counts) \<in> set (zip (tbl_index ?ct) (tbl_values ?ct))"
    and r: "md_zip r = z" "md_total_records r = sum_list counts"
    by (auto simp: map_data_def Let_def)
  from zip_index_values [OF zc] r
  show "md_zip r \<in> fst ` set (crosstab_pairs (heatmap_prepare rows))"
    and "md_total_records r
         = length (filter (\<lambda>(a, b). a = md_zip r) (crosstab_pairs (heatmap_prepare rows)))"
    by (simp_all add: crosstab_sets crosstab_row_sum)
qed

lemma map_data_total_pos:
  assumes "r \<in> set (map_data rows)"
  shows "1 \<le> md_total_records r"
proof -
  from map_data_row(1) [OF assms] obtain p
    where "p \<in> set (crosstab_pairs (heatmap_prepare rows))" "fst p = md_zip r" by auto
  then have "filter (\<lambda>(a, b). a = md_zip r) (crosstab_pairs (heatmap_prepare rows)) \<noteq> []"
    by (auto simp: filter_empty_conv case_prod_unfold)
  then show ?thesis using map_data_row(2) [OF assms]
    by (simp add: Suc_le_eq)
qed

lemma foldr_max_ge: "x \<in> set xs \<Longrightarrow> x \<le> foldr max xs (0::nat)"
  by (induction xs) auto

lemma map_data_total_le_max:
  "r \<in> set md \<Longrightarrow> int (md_total_records r) \<le> max_records md"
  by (simp add: max_records_def foldr_max_ge)

lemma map_data_example:
  "map_data [(Obj ''60601.0'', Str ''White''), (Str ''60601'', NaN), (Str ''60601'', Str ''White''), (NaN, Str ''White'')]
   = [\<lparr>md_zip = ''60601'', md_dominant_race = Some ''White'',
       md_dominant_percentage = Some (200 / 3), md_total_records = 3\<rparr>]"
proof -
  have z: "zip_clean (Obj ''60601.0'') = Str ''60601''" "zip_clean (Str ''60601'') = Str ''60601''"
      "zip_clean NaN = Str ''nan''"
    by (simp_all add: zip_clean_def astype_str_def py_strip_def py_isspace_def)
  have r: "race_clean (Str ''White'') = Str ''White''" "race_clean NaN = Str ''Unknown''"
    by (simp_all add: race_clean_def astype_str_def py_strip_def py_isspace_def
        py_upper_def py_upper_char_def char_of_eq_iff fillna_def isna_def replace_value_def)
  have p: "heatmap_prepare [(Obj ''60601.0'', Str ''White''), (Str ''60601'', NaN), (Str ''60601'', Str ''White''), (NaN, Str ''White'')]
     = [(Str ''60601'', Str ''White''), (Str ''60601'', Str ''Unknown''), (Str ''60601'', Str ''White'')]"
    by (simp add: heatmap_prepare_def z r)
  have c: "crosstab [(Str ''60601'', Str ''White''), (Str ''60601'', Str ''Unknown''), (Str ''60601'', Str ''White'')]
     = \<lparr>tbl_index = [''60601''], tbl_columns = [''Unknown'', ''White''], tbl_values = [[1, 2]]\<rparr>"
    by (simp add: crosstab_def crosstab_pairs_def Let_def)
  show ?thesis
    by (simp add: map_data_def p c percent_def Let_def)
qed

lemma first_max_props:
  assumes "sorted (map fst ps)" "distinct (map fst ps)" "first_max ps = Some (l, v)"
  shows "(l, Some v) \<in> set ps
         \<and> (\<forall>l' v'. (l', Some v') \<in> set ps \<longrightarrow> v' \<le> v \<and> (v' = v \<longrightarrow> l \<le> l'))"
  using assms
proof (induction ps arbitrary: l v rule: first_max.induct)
  case 1
  then show ?case by simp
next
  case (2 l0 ps)
  then show ?case by auto
next
  case (3 l0 v0 ps)
  show ?case
  proof (cases "first_max ps")
    case None
    have "\<And>l' v'. (l', Some v') \<notin> set ps"
    proof
      fix l' v' assume "(l', Some v') \<in> set ps"
      then have "first_max ps \<noteq> None"
        by (induction ps rule: first_max.induct) (auto split: option.splits)
      with None show False by simp
    qed
    with 3 None show ?thesis by auto
  next
    case (Some q)
    obtain l1 v1 where q: "q = (l1, v1)" by (cases q)
    from 3 have s: "sorted (map fst ps)" "distinct (map fst ps)" by simp_all
    from "3.IH" [OF s] Some q
    have ih: "(l1, Some v1) \<in> set ps"
      "\<And>l' v'. (l', Some v') \<in> set ps \<Longrightarrow> v' \<le> v1 \<and> (v' = v1 \<longrightarrow> l1 \<le> l')"
      by auto
    from 3 have le: "\<And>l' v'. (l', v') \<in> set ps \<Longrightarrow> l0 \<le> l'"
      by (auto simp: rev_image_eqI)
    show ?thesis
    proof (cases "v0 < v1")
      case True
      with 3 Some q have "l = l1" "v = v1" by auto
      with ih True show ?thesis by auto
    next
      case False
      with 3 Some q have "l = l0" "v = v0" by auto
      with ih False le show ?thesis by (auto dest!: ih(2)) 
    qed
  qed
qed

lemma first_max_exists:
  "(l', Some v') \<in> set ps \<Longrightarrow> \<exists>l v. first_max ps = Some (l, v)"
  by (induction ps rule: first_max.induct) (auto split: option.splits)

lemma map_data_dominant:
  assumes "r \<in> set (map_data rows)"
  shows "\<exists>race. md_dominant_race r = Some race
     \<and> (\<forall>c. count_list (crosstab_pairs (heatmap_prepare rows)) (md_zip r, c)
             \<le> count_list (crosstab_pairs (heatmap_prepare rows)) (md_zip r, race))
     \<and> (\<forall>c. count_list (crosstab_pairs (heatmap_prepare rows)) (md_zip r, c)
             = count_list (crosstab_pairs (heatmap_prepare rows)) (md_zip r, race) \<longrightarrow> race \<le> c)
     \<and> md_dominant_percentage r
         = Some (of_nat (count_list (crosstab_pairs (heatmap_prepare rows)) (md_zip r, race))
                 / of_nat (md_total_records r) * 100)"
proof -
  let ?ps = "crosstab_pairs (heatmap_prepare rows)"
  let ?ct = "crosstab (heatmap_prepare rows)"
  let ?cols = "tbl_columns ?ct"
  let ?z = "md_zip r"
  let ?n = "md_total_records r"
  let ?cnt = "\<lambda>c. count_list ?ps (?z, c)"
  let ?pct = "\<lambda>c. (of_nat (?cnt c) / of_nat ?n * 100 :: rat)"
  let ?l = "map (\<lambda>c. (c, Some (?pct c))) ?cols"
  from assms obtain z counts where zc: "(z, counts) \<in> set (zip (tbl_index ?ct) (tbl_values ?ct))"
    and r: "r = \<lparr>md_zip = z,
                 md_dominant_race = map_option fst (first_max (zip ?cols (map (\<lambda>v. percent v (sum_list counts)) counts))),
                 md_dominant_percentage = map_option snd (first_max (zip ?cols (map (\<lambda>v. percent v (sum_list counts)) counts))),
                 md_total_records = sum_list counts\<rparr>"
    by (auto simp: map_data_def Let_def)
  have dr: "md_dominant_race r
              = map_option fst (first_max (zip ?cols (map (\<lambda>v. percent v (sum_list counts)) counts)))"
      "md_dominant_percentage r
              = map_option snd (first_max (zip ?cols (map (\<lambda>v. percent v (sum_list counts)) counts)))"
    by (subst r, simp)+
  have z: "z = ?z" and n: "sum_list counts = ?n" by (simp_all add: r)
  have counts: "counts = map ?cnt ?cols" using zip_index_values(2) [OF zc] z by simp
  have pos: "0 < ?n" using map_data_total_pos [OF assms] by simp
  have l: "zip ?cols (map (\<lambda>v. percent v (sum_list counts)) counts) = ?l"
    using pos unfolding n unfolding counts
    by (simp add: zip_map2 zip_same_conv_map percent_def o_def)
  have fst_l: "map fst ?l = ?cols" by (simp add: o_def)
  obtain p where p: "p \<in> set ?ps" "fst p = ?z" using map_data_row(1) [OF assms] by auto
  then have sndp: "snd p \<in> set ?cols" by (simp add: crosstab_sets)
  then have "(snd p, Some (?pct (snd p))) \<in> set ?l" by auto
  from first_max_exists [OF this] obtain race v where fm: "first_max ?l = Some (race, v)" by blast
  have srt: "sorted (map fst ?l)" "distinct (map fst ?l)"
    by (simp_all only: fst_l crosstab_sets)
  have props: "(race, Some v) \<in> set ?l"
    "\<And>l' v'. (l', Some v') \<in> set ?l \<Longrightarrow> v' \<le> v \<and> (v' = v \<longrightarrow> race \<le> l')"
    using first_max_props [OF srt fm] by blast+
  from props(1) have race: "race \<in> set ?cols" and v: "v = ?pct race" by auto
  have mono: "?pct c \<le> ?pct d \<longleftrightarrow> ?cnt c \<le> ?cnt d" for c d
    using pos by (simp add: divide_le_cancel)
  have inj: "?pct c = ?pct d \<longleftrightarrow> ?cnt c = ?cnt d" for c d
    using pos by simp
  have in_cols: "?pct c \<le> ?pct race \<and> (?pct c = ?pct race \<longrightarrow> race \<le> c)" if "c \<in> set ?cols" for c
    using props(2) [of c "?pct c"] that v by auto
  have "(?z, snd p) \<in> set ?ps" using p by (metis prod.collapse)
  then have cnt_p: "0 < ?cnt (snd p)" using count_list_0_iff [of ?ps "(?z, snd p)"] by simp
  have race_pos: "0 < ?cnt race" using in_cols [OF sndp] cnt_p mono [of "snd p" race] by simp
  have out_cols: "?cnt c = 0" if "c \<notin> set ?cols" for c
    using that by (auto simp: crosstab_sets count_list_0_iff intro: rev_image_eqI)
  have a: "?cnt c \<le> ?cnt race" for c
    using in_cols [of c] mono [of c race] out_cols [of c] by (cases "c \<in> set ?cols") simp_all
  have b: "?cnt c = ?cnt race \<longrightarrow> race \<le> c" for c
    using in_cols [of c] inj [of c race] out_cols [of c] race_pos by (cases "c \<in> set ?cols") simp_all
  have "md_dominant_race r = Some race" "md_dominant_percentage r = Some (?pct race)"
    unfolding dr l fm v by simp_all
  with a b show ?thesis by blast
qed

section \<open>C7: the dominant category of a postal code\<close>

text \<open>
  Claim C7: for every row of the geographic aggregate, the dominant category is reported,
  no category of that postal code has a larger count, among the categories with that
  count it is the least in the column order of the cross-tabulation (the order of the
  labels as strings, which does not depend on the order of the records), the reported
  percentage is its count over the total of the code times 100, and the total is the
  number of the records of the code. Percentages are exact quotients here.
\<close>

theorem dominant_category_correct:
  assumes "r \<in> set (map_data rows)"
  shows "\<exists>race. md_dominant_race r = Some race
     \<and> (\<forall>c. count_list (crosstab_pairs (heatmap_prepare rows)) (md_zip r, c)
             \<le> count_list (crosstab_pairs (heatmap_prepare rows)) (md_zip r, race))
     \<and> (\<forall>c. count_list (crosstab_pairs (heatmap_prepare rows)) (md_zip r, c)
             = count_list (crosstab_pairs (heatmap_prepare rows)) (md_zip r, race) \<longrightarrow> race \<le> c)
     \<and> md_dominant_percentage r
         = Some (of_nat (count_list (crosstab_pairs (heatmap_prepare rows)) (md_zip r, race))
                 / of_nat (md_total_records r) * 100)
     \<and> md_total_records r
         = length (filter (\<lambda>(a, b). a = md_zip r) (crosstab_pairs (heatmap_prepare rows)))"
  using map_data_dominant [OF assms] map_data_row(2) [OF assms] by blast

text \<open>
  Claim C7, witness: four records, of which three have the postal code 60601 (one read
  as the number 60601.0, one with a missing race) and one has no postal code.
\<close>

theorem dominant_category_correct_witness:
  "md_dominant_race \<lparr>md_zip = ''60601'', md_dominant_race = Some ''White'',
       md_dominant_percentage = Some (200 / 3), md_total_records = 3\<rparr> = Some ''White''
   \<and> (\<forall>c. count_list (crosstab_pairs (heatmap_prepare
              [(Obj ''60601.0'', Str ''White''), (Str ''60601'', NaN), (Str ''60601'', Str ''White''),
               (NaN, Str ''White'')])) (''60601'', c)
           \<le> count_list (crosstab_pairs (heatmap_prepare
              [(Obj ''60601.0'', Str ''White''), (Str ''60601'', NaN), (Str ''60601'', Str ''White''),
               (NaN, Str ''White'')])) (''60601'', ''White''))"
proof -
  let ?rows = "[(Obj ''60601.0'', Str ''White''), (Str ''60601'', NaN), (Str ''60601'', Str ''White''),
               (NaN, Str ''White'')]"
  let ?r = "\<lparr>md_zip = ''60601'', md_dominant_race = Some ''White'',
       md_dominant_percentage = Some (200 / 3), md_total_records = 3\<rparr>"
  have "?r \<in> set (map_data ?rows)" by (simp only: map_data_example list.set insertI1)
  from dominant_category_correct [OF this] show ?thesis by auto
qed

section \<open>C10: the legend tier of a postal code\<close>

text \<open>
  Claim C10: the total of every row of the geographic aggregate lies between 1 and the
  largest total; the loop of \<open>get_logical_color\<close> over the ranges chosen for the largest
  total finds a range for it, so the tier is between 1 and 5 and never comes from the
  default; and the five ranges chosen for any maximum \<open>m\<close> contain every \<open>k\<close> from 1 to
  \<open>m\<close> in exactly one range.
\<close>

theorem legend_tier_total:
  assumes "r \<in> set (map_data rows)" "1 \<le> k" "k \<le> m"
  shows "1 \<le> md_total_records r \<and> int (md_total_records r) \<le> max_records (map_data rows)
     \<and> (\<exists>t. range_search (ranges (max_records (map_data rows))) 0 (int (md_total_records r)) = Some t
            \<and> 1 \<le> t \<and> t \<le> 5
            \<and> get_logical_color (ranges (max_records (map_data rows))) (int (md_total_records r)) = t)
     \<and> length (ranges m) = 5
     \<and> length (filter (\<lambda>(lo, hi). lo \<le> k \<and> k \<le> hi) (ranges m)) = 1"
proof -
  have 1: "1 \<le> md_total_records r" by (rule map_data_total_pos [OF assms(1)])
  have 2: "int (md_total_records r) \<le> max_records (map_data rows)"
    by (rule map_data_total_le_max [OF assms(1)])
  from 1 have "1 \<le> int (md_total_records r)" by simp
  from range_search_ranges [OF this 2]
  have 3: "\<exists>t. range_search (ranges (max_records (map_data rows))) 0 (int (md_total_records r)) = Some t
            \<and> 1 \<le> t \<and> t \<le> 5
            \<and> get_logical_color (ranges (max_records (map_data rows))) (int (md_total_records r)) = t"
    by (auto simp: get_logical_color_def)
  have 4: "length (ranges m) = 5" by (simp add: ranges_def)
  from 1 2 3 4 ranges_cover [OF assms(2,3)] show ?thesis by blast
qed

text \<open>Claim C10, witness: the aggregate of the four records above, and 7 of a maximum 40.\<close>

theorem legend_tier_total_witness:
  "1 \<le> (3::nat) \<and> (\<exists>t. get_logical_color (ranges 3) 3 = t \<and> 1 \<le> t \<and> t \<le> 5)
   \<and> length (filter (\<lambda>(lo, hi). lo \<le> 7 \<and> 7 \<le> hi) (ranges 40)) = 1"
proof -
  let ?rows = "[(Obj ''60601.0'', Str ''White''), (Str ''60601'', NaN), (Str ''60601'', Str ''White''),
               (NaN, Str ''White'')]"
  let ?r = "\<lparr>md_zip = ''60601'', md_dominant_race = Some ''White'',
       md_dominant_percentage = Some (200 / 3), md_total_records = 3\<rparr>"
  have m: "?r \<in> set (map_data ?rows)" by (simp only: map_data_example list.set insertI1)
  have x: "max_records (map_data ?rows) = 3" by (simp add: map_data_example max_records_def)
  from legend_tier_total [OF m, of 7 40] show ?thesis by (auto simp: x)
qed

section \<open>The trend table: counts and percentages\<close>

lemma set_present_years: "set [y. Some y \<leftarrow> years] = {y. Some y \<in> set years}"
  by (induction years) (auto split: option.splits)

lemma groupby_size_member:
  "(y, n) \<in> set (groupby_size years) \<longleftrightarrow> Some y \<in> set years \<and> n = count_list years (Some y)"
  by (auto simp: groupby_size_def set_present_years)

lemma map_of_groupby_size:
  "map_of (groupby_size ys) y = (if Some y \<in> set ys then Some (count_list ys (Some y)) else None)"
  by (simp add: groupby_size_def map_of_map_restrict restrict_map_def set_present_years)

lemma merged_count:
  "(case map_of (groupby_size ys) y of Some n \<Rightarrow> n | None \<Rightarrow> 0) = count_list ys (Some y)"
  by (simp add: map_of_groupby_size)

lemma count_list_fst_filter:
  "count_list (map fst (filter (\<lambda>(y, v). P v) zs)) a
   = length (filter (\<lambda>(y, v). y = a \<and> P v) zs)"
  by (induction zs) auto

lemma flagged_count_eq:
  "(case map_of (flagged_count years series) y of Some n \<Rightarrow> n | None \<Rightarrow> 0)
   = length (filter (\<lambda>(yr, v). yr = Some y \<and> flagged v) (zip years series))"
  by (simp add: flagged_count_def merged_count count_list_fst_filter)

lemma count_list_take_le: "count_list (take n xs) a \<le> count_list xs a"
proof -
  have "count_list xs a = count_list (take n xs) a + count_list (drop n xs) a"
    by (metis append_take_drop_id count_list_append)
  then show ?thesis by simp
qed

lemma filter_conj_le:
  "length (filter (\<lambda>(yr, v). yr = a \<and> P v) zs) \<le> length (filter (\<lambda>(yr, v). yr = a) zs)"
  by (induction zs) (auto simp: le_SucI)

lemma flagged_le_total:
  "length (filter (\<lambda>(yr, v). yr = Some y \<and> flagged v) (zip years series))
   \<le> count_list years (Some y)"
proof -
  have "length (filter (\<lambda>(yr, v). yr = Some y \<and> flagged v) (zip years series))
        \<le> length (filter (\<lambda>(yr, v). yr = Some y) (zip years series))"
    by (rule filter_conj_le)
  also have "\<dots> = count_list (map fst (zip years series)) (Some y)"
    using count_list_fst_filter [of "\<lambda>v. True" "zip years series" "Some y"] by simp
  also have "\<dots> \<le> count_list years (Some y)"
    by (simp add: map_fst_zip_take count_list_take_le)
  finally show ?thesis .
qed

lemma trends_df_row:
  assumes "row \<in> set (trends_df years tracked)"
  shows "Some (tr_year row) \<in> set years"
    and "tr_total_records row = count_list years (Some (tr_year row))"
    and "tr_flags row = map (\<lambda>series.
            (length (filter (\<lambda>(yr, v). yr = Some (tr_year row) \<and> flagged v) (zip years series)),
             percent (length (filter (\<lambda>(yr, v). yr = Some (tr_year row) \<and> flagged v) (zip years series)))
                     (tr_total_records row))) tracked"
proof -
  from assms obtain y n where yn: "(y, n) \<in> set (groupby_size years)"
    and row: "row = \<lparr>tr_year = y, tr_total_records = n,
             tr_flags = map (\<lambda>series.
                          let cnt = (case map_of (flagged_count years series) y of
                                       Some n \<Rightarrow> n | None \<Rightarrow> 0)
                          in (cnt, percent cnt n)) tracked\<rparr>"
    by (auto simp: trends_df_def)
  from yn have "Some y \<in> set years" "n = count_list years (Some y)"
    by (simp_all add: groupby_size_member)
  then show "Some (tr_year row) \<in> set years"
    and "tr_total_records row = count_list years (Some (tr_year row))"
    by (simp_all add: row)
  show "tr_flags row = map (\<lambda>series.
            (length (filter (\<lambda>(yr, v). yr = Some (tr_year row) \<and> flagged v) (zip years series)),
             percent (length (filter (\<lambda>(yr, v). yr = Some (tr_year row) \<and> flagged v) (zip years series)))
                     (tr_total_records row))) tracked"
    by (simp add: row flagged_count_eq Let_def)
qed

lemma trends_df_total_pos:
  assumes "row \<in> set (trends_df years tracked)"
  shows "0 < tr_total_records row"
  using trends_df_row(1,2) [OF assms] count_list_0_iff [of years "Some (tr_year row)"] by simp

lemma percent_bounds:
  assumes "0 < n" "cnt \<le> n"
  shows "\<exists>q. percent cnt n = Some q \<and> 0 \<le> q \<and> q \<le> 100 \<and> q = of_nat cnt / of_nat n * 100"
proof -
  have "(of_nat cnt :: rat) \<le> of_nat n" using assms by simp
  then have "(of_nat cnt :: rat) / of_nat n * 100 \<le> 100"
    using assms(1) by (simp add: field_simps)
  with assms show ?thesis by (simp add: percent_def)
qed

lemma trends_df_flags:
  assumes "row \<in> set (trends_df years tracked)" "(cnt, p) \<in> set (tr_flags row)"
  shows "cnt \<le> tr_total_records row"
    and "\<exists>q. p = Some q \<and> 0 \<le> q \<and> q \<le> 100 \<and> q = of_nat cnt / of_nat (tr_total_records row) * 100"
proof -
  from assms(2) trends_df_row(3) [OF assms(1)] obtain series
    where cnt: "cnt = length (filter (\<lambda>(yr, v). yr = Some (tr_year row) \<and> flagged v) (zip years series))"
      and p: "p = percent cnt (tr_total_records row)"
    by auto
  show le: "cnt \<le> tr_total_records row"
    unfolding cnt trends_df_row(2) [OF assms(1)] by (rule flagged_le_total)
  from percent_bounds [OF trends_df_total_pos [OF assms(1)] le] p
  show "\<exists>q. p = Some q \<and> 0 \<le> q \<and> q \<le> 100 \<and> q = of_nat cnt / of_nat (tr_total_records row) * 100"
    by simp
qed

lemma escalation_main_Completed:
  assumes "escalation_main df = Completed trends"
  shows "\<exists>dates years tracked. df_col df column_date = Inr dates \<and> dt_year dates = Inr years
           \<and> df_cols df columns_to_track = Inr tracked \<and> trends = trends_df years tracked"
  using assms
  by (auto simp: escalation_main_def Let_def bind_err_def split: if_splits sum.splits)

lemma escalation_example:
  "escalation_main
     [(''Subject_Create_Date'', [Timestamp 2020 ''2020-01-05'', Timestamp 2020 ''2020-03-01'', NaT]),
      (''Subject_Armed'', [Str ''N'', NaN, Str ''Y'']),
      (''Subject_Felon'', [Str '' '', Str ''Y'', Str ''Y'']),
      (''Subject_Probation'', [NoneV, Obj ''1'', Str []])]
   = Completed [\<lparr>tr_year = 2020, tr_total_records = 2,
                  tr_flags = [(1, Some 50), (1, Some 50), (1, Some 50)]\<rparr>]"
  by (simp add: escalation_main_def column_date_def columns_to_track_def df_columns_def df_col_def
      bind_err_def dt_year_def trends_df_def groupby_size_def flagged_count_def flagged_def
      astype_str_def notna_def isna_def py_strip_def py_isspace_def percent_def Let_def)

section \<open>C5: the percentages of the trend table\<close>

text \<open>
  Claim C5: in every trend table that escalation.py computes, every row has a positive
  total (a year occurs in the table only when a record has it, so no total is zero),
  every flagged count is at most the total, and every percentage is a finite number
  between 0 and 100, namely the count over the total times 100. Percentages are exact
  quotients here, and \<open>None\<close> stands for the NaN or infinity of a division by zero.
\<close>

theorem trend_percentage_bounds:
  assumes "escalation_main df = Completed trends" "row \<in> set trends" "(cnt, p) \<in> set (tr_flags row)"
  shows "0 < tr_total_records row \<and> cnt \<le> tr_total_records row
     \<and> (\<exists>q. p = Some q \<and> 0 \<le> q \<and> q \<le> 100
            \<and> q = of_nat cnt / of_nat (tr_total_records row) * 100)"
proof -
  from escalation_main_Completed [OF assms(1)] obtain years tracked
    where "trends = trends_df years tracked" by blast
  with assms(2) have row: "row \<in> set (trends_df years tracked)" by simp
  from trends_df_total_pos [OF row] trends_df_flags [OF row assms(3)] show ?thesis by blast
qed

text \<open>
  Claim C5, witness: three records, two of the year 2020 and one without a date; each
  tracked column has one flagged record in 2020, 50 percent.
\<close>

theorem trend_percentage_bounds_witness:
  "\<exists>q. Some (50::rat) = Some q \<and> 0 \<le> q \<and> q \<le> 100 \<and> q = of_nat 1 / of_nat 2 * 100"
proof -
  let ?df = "[(''Subject_Create_Date'', [Timestamp 2020 ''2020-01-05'', Timestamp 2020 ''2020-03-01'', NaT]),
      (''Subject_Armed'', [Str ''N'', NaN, Str ''Y'']),
      (''Subject_Felon'', [Str '' '', Str ''Y'', Str ''Y'']),
      (''Subject_Probation'', [NoneV, Obj ''1'', Str []])]"
  let ?row = "\<lparr>tr_year = 2020, tr_total_records = 2,
                  tr_flags = [(1, Some 50), (1, Some 50), (1, Some 50)]\<rparr>"
  have r: "?row \<in> set [?row]" by simp
  have f: "(1, Some 50) \<in> set (tr_flags ?row)" by simp
  from trend_percentage_bounds [OF escalation_example r f] show ?thesis by simp
qed

section \<open>C6: what counts as flagged\<close>

lemma flagged_iff: "flagged c \<longleftrightarrow> notna c \<and> py_strip (py_str c) \<noteq> []"
  by (simp add: flagged_def astype_str_def)

lemma trends_df_years:
  "map tr_year (trends_df years tracked) = sort (remdups [y. Some y \<leftarrow> years])"
  by (simp add: trends_df_def groupby_size_def comp_def)

lemma trends_df_years_distinct:
  "distinct (map tr_year (trends_df years tracked))"
  "set (map tr_year (trends_df years tracked)) = {y. Some y \<in> set years}"
  by (simp_all only: trends_df_years distinct_sort distinct_remdups set_sort set_remdups set_present_years)

lemma trends_df_counts:
  assumes "k < length tracked"
  shows "map (\<lambda>row. fst (tr_flags row ! k)) (trends_df years tracked)
         = map (\<lambda>y. length (filter (\<lambda>(yr, v). yr = Some y \<and> flagged v) (zip years (tracked ! k))))
               (sort (remdups [y. Some y \<leftarrow> years]))"
  using assms by (simp add: trends_df_def groupby_size_def comp_def flagged_count_eq Let_def)

lemma filter_fst_not_None:
  "length (filter (\<lambda>x. x \<noteq> None) (map fst (filter (\<lambda>(y, v). P v) zs)))
   = length (filter (\<lambda>(yr, v). yr \<noteq> None \<and> P v) zs)"
  by (induction zs) auto

lemma sum_year_counts:
  assumes "distinct ys" "set ys = {y. Some y \<in> set years}"
  shows "sum_list (map (\<lambda>y. length (filter (\<lambda>(yr, v). yr = Some y \<and> P v) (zip years series))) ys)
         = length (filter (\<lambda>(yr, v). yr \<noteq> None \<and> P v) (zip years series))"
proof -
  let ?zs = "zip years series"
  let ?xs = "map fst (filter (\<lambda>(y, v). P v) ?zs)"
  have "sum_list (map (\<lambda>y. length (filter (\<lambda>(yr, v). yr = Some y \<and> P v) ?zs)) ys)
        = sum_list (map (\<lambda>y. count_list ?xs (Some y)) ys)"
    by (simp add: count_list_fst_filter)
  also have "\<dots> = (\<Sum>y\<in>set ys. count_list ?xs (Some y))"
    using assms(1) by (simp add: sum_list_distinct_conv_sum_set)
  also have "\<dots> = sum (count_list ?xs) (Some ` set ys)"
    by (simp add: sum.reindex)
  also have "\<dots> = length (filter (\<lambda>x. x \<in> Some ` set ys) ?xs)"
    by (rule sum_count_list_filter) simp
  also have "\<dots> = length (filter (\<lambda>x. x \<noteq> None) ?xs)"
  proof -
    have "\<And>x. x \<in> set ?xs \<Longrightarrow> (x \<in> Some ` set ys) = (x \<noteq> None)"
    proof -
      fix x assume "x \<in> set ?xs"
      then have "x \<in> set years" by (auto dest: set_zip_leftD)
      then show "(x \<in> Some ` set ys) = (x \<noteq> None)"
        unfolding assms(2) by (cases x) auto
    qed
    then have "filter (\<lambda>x. x \<in> Some ` set ys) ?xs = filter (\<lambda>x. x \<noteq> None) ?xs"
      by (intro filter_cong) simp_all
    then show ?thesis by simp
  qed
  also have "\<dots> = length (filter (\<lambda>(yr, v). yr \<noteq> None \<and> P v) ?zs)"
    by (rule filter_fst_not_None)
  finally show ?thesis .
qed

text \<open>
  Claim C6, as stated, fails for a record without a creation date: its year is missing,
  \<open>groupby('Year')\<close> (lines 69 and 80) leaves it out, and it is counted in no row. Below,
  the second record has the value \<open>Y\<close>, present and not empty, in all three tracked
  columns, and every flagged count of the table is 0.
\<close>

theorem dateless_record_not_counted:
  "notna (Str ''Y'') \<and> py_strip (py_str (Str ''Y'')) \<noteq> []
   \<and> escalation_main
       [(''Subject_Create_Date'', [Timestamp 2020 ''2020-01-05'', NaT]),
        (''Subject_Armed'', [NaN, Str ''Y'']),
        (''Subject_Felon'', [NaN, Str ''Y'']),
        (''Subject_Probation'', [NaN, Str ''Y''])]
     = Completed [\<lparr>tr_year = 2020, tr_total_records = 1,
                    tr_flags = [(0, Some 0), (0, Some 0), (0, Some 0)]\<rparr>]"
  by (simp add: escalation_main_def column_date_def columns_to_track_def df_columns_def df_col_def
      bind_err_def dt_year_def trends_df_def groupby_size_def flagged_count_def flagged_def
      astype_str_def notna_def isna_def py_strip_def py_isspace_def percent_def Let_def)

text \<open>
  Claim C6, amended: the trend table has exactly one row for each year that the creation
  date of some record has, and no other row. For every tracked column, the flagged count
  in the row of a year is the number of the records created in that year whose value in
  the column is present (not missing) and not empty after stripping its text, whatever
  the value is. Summed over the rows, the flagged counts are the number of the records
  that have a creation date and such a value: a record without a creation date is in no
  count. The policy differs from the binary normalizer: the value \<open>N\<close> is flagged, and
  \<open>standardize_column\<close> maps it to \<open>N\<close>.
\<close>

theorem flagged_count_of_dated_records:
  assumes "k < length tracked"
  shows "distinct (map tr_year (trends_df years tracked))
     \<and> set (map tr_year (trends_df years tracked)) = {y. Some y \<in> set years}
     \<and> (\<forall>row \<in> set (trends_df years tracked).
          fst (tr_flags row ! k)
          = length (filter (\<lambda>(yr, v). yr = Some (tr_year row)
                                     \<and> notna v \<and> py_strip (py_str v) \<noteq> []) (zip years (tracked ! k))))
     \<and> sum_list (map (\<lambda>row. fst (tr_flags row ! k)) (trends_df years tracked))
          = length (filter (\<lambda>(yr, v). yr \<noteq> None
                                     \<and> notna v \<and> py_strip (py_str v) \<noteq> []) (zip years (tracked ! k)))
     \<and> flagged (Str ''N'') \<and> standardize_value (Str ''N'') = Str ''N''"
proof -
  have r: "\<forall>row \<in> set (trends_df years tracked).
          fst (tr_flags row ! k)
          = length (filter (\<lambda>(yr, v). yr = Some (tr_year row)
                                     \<and> notna v \<and> py_strip (py_str v) \<noteq> []) (zip years (tracked ! k)))"
  proof
    fix row assume row: "row \<in> set (trends_df years tracked)"
    show "fst (tr_flags row ! k)
          = length (filter (\<lambda>(yr, v). yr = Some (tr_year row)
                                     \<and> notna v \<and> py_strip (py_str v) \<noteq> []) (zip years (tracked ! k)))"
      using assms by (simp add: trends_df_row(3) [OF row] flagged_iff)
  qed
  have "sum_list (map (\<lambda>row. fst (tr_flags row ! k)) (trends_df years tracked))
        = length (filter (\<lambda>(yr, v). yr \<noteq> None \<and> flagged v) (zip years (tracked ! k)))"
    unfolding trends_df_counts [OF assms]
    by (rule sum_year_counts)
      (simp_all only: distinct_sort distinct_remdups set_sort set_remdups set_present_years)
  then have s: "sum_list (map (\<lambda>row. fst (tr_flags row ! k)) (trends_df years tracked))
          = length (filter (\<lambda>(yr, v). yr \<noteq> None
                                     \<and> notna v \<and> py_strip (py_str v) \<noteq> []) (zip years (tracked ! k)))"
    by (simp add: flagged_iff)
  have n: "py_strip (py_upper ''N'') \<noteq> ''Y''" "py_strip ''N'' \<noteq> []"
    by (simp_all add: py_strip_def py_upper_def py_upper_char_def py_isspace_def char_of_eq_iff)
  then have f: "flagged (Str ''N'')" "standardize_value (Str ''N'') = Str ''N''"
    by (simp_all add: flagged_iff standardize_value_eq)
  show ?thesis using trends_df_years_distinct r s f by blast
qed

text \<open>
  Claim C6, witness: the armed column \<open>N\<close>, NaN, \<open>Y\<close> with the years 2020, 2020 and
  none. The table has the single row of 2020 with one flagged record, the one with the
  value \<open>N\<close>; the record \<open>Y\<close> has no date and is not counted.
\<close>

theorem flagged_count_of_dated_records_witness:
  "map tr_year (trends_df [Some 2020, Some 2020, None] [[Str ''N'', NaN, Str ''Y'']]) = [2020]
   \<and> map (\<lambda>row. fst (tr_flags row ! 0))
        (trends_df [Some 2020, Some 2020, None] [[Str ''N'', NaN, Str ''Y'']]) = [1]
   \<and> (1::nat) = length (filter (\<lambda>(yr, v). yr \<noteq> None \<and> notna v \<and> py_strip (py_str v) \<noteq> [])
                 (zip [Some (2020::int), Some 2020, None] [Str ''N'', NaN, Str ''Y'']))"
proof -
  let ?years = "[Some (2020::int), Some 2020, None]"
  let ?tracked = "[[Str ''N'', NaN, Str ''Y'']]"
  let ?row = "\<lparr>tr_year = 2020, tr_total_records = 2, tr_flags = [(1, Some 50)]\<rparr>"
  have t: "trends_df ?years ?tracked = [?row]"
    by (simp add: trends_df_def groupby_size_def flagged_count_def flagged_def
      astype_str_def notna_def isna_def py_strip_def py_isspace_def percent_def Let_def)
  have k: "0 < length ?tracked" by simp
  from flagged_count_of_dated_records [OF k, of ?years] show ?thesis
    unfolding t by simp
qed

section \<open>C9: a source file without the required columns\<close>

text \<open>
  Every script compares the required column names with the columns of the loaded file
  before it touches the data.  When one is absent it prints an error line, a line naming
  columns and the available columns, and calls \<^verbatim>\<open>exit()\<close> with no argument.  That raises
  \<^verbatim>\<open>SystemExit(None)\<close>, which ends the interpreter with status 0: the status of a
  successful run.  The following evaluation shows it for \<^verbatim>\<open>colors.py\<close> on a file that has
  only the column \<^verbatim>\<open>Subject_Wears_Colors\<close>.
\<close>

text \<open>
  C9, as stated, asks that a file missing a required column ends the process with a
  non-zero status.  On the one-column file below \<^verbatim>\<open>colors.py\<close> stops with the three
  diagnostic lines and status 0, so the statement does not hold of the code.
\<close>

theorem missing_column_exit_status_zero:
  "column_admits_gang \<notin> set (df_columns [(''Subject_Wears_Colors'', [Str ''Y''])])
   \<and> colors_main [(''Subject_Wears_Colors'', [Str ''Y''])]
       = SystemExit None [ErrorColumnsNotFound,
                          ExpectedColumns [''Subject_Wears_Colors'', ''Subject_Admits_Gang''],
                          AvailableColumns [''Subject_Wears_Colors'']]
   \<and> \<not> exit_status (colors_main [(''Subject_Wears_Colors'', [Str ''Y''])]) \<noteq> 0"
  by (simp add: colors_main_def df_columns_def column_wears_colors_def column_admits_gang_def)

text \<open>
  C9, amended: for every loaded file that misses a required column, each script stops
  before any cleaning or aggregation (its outcome is the \<^verbatim>\<open>SystemExit\<close> raised by the
  column check, never a completed table), having printed the error line, the expected
  columns (in \<^verbatim>\<open>escalation.py\<close>: the missing ones) and the available columns; the exit
  carries no code, so the process status is 0.
\<close>

theorem missing_column_aborts:
  "(column_wears_colors \<notin> set (df_columns df) \<or> column_admits_gang \<notin> set (df_columns df) \<longrightarrow>
      colors_main df = SystemExit None
          [ErrorColumnsNotFound, ExpectedColumns [column_wears_colors, column_admits_gang],
           AvailableColumns (df_columns df)]
      \<and> exit_status (colors_main df) = 0)
   \<and> (column_colors \<notin> set (df_columns df) \<or> column_admits \<notin> set (df_columns df) \<longrightarrow>
      gang_colors_main df = SystemExit None
          [ErrorColumnsNotFound, ExpectedColumns [column_colors, column_admits],
           AvailableColumns (df_columns df)]
      \<and> exit_status (gang_colors_main df) = 0)
   \<and> (column_race \<notin> set (df_columns df) \<or> column_admits_gang \<notin> set (df_columns df) \<longrightarrow>
      race_main df = SystemExit None
          [ErrorColumnsNotFound, ExpectedColumns [column_race, column_admits_gang],
           AvailableColumns (df_columns df)]
      \<and> exit_status (race_main df) = 0)
   \<and> (column_zip \<notin> set (df_columns df) \<or> column_race \<notin> set (df_columns df) \<longrightarrow>
      heatmap_main df = SystemExit None
          [ErrorColumnsNotFound, ExpectedColumns [column_zip, column_race],
           AvailableColumns (df_columns df)]
      \<and> exit_status (heatmap_main df) = 0)
   \<and> (\<not> set (column_date # columns_to_track) \<subseteq> set (df_columns df) \<longrightarrow>
      escalation_main df = SystemExit None
          [ErrorColumnsNotFound,
           MissingColumns (filter (\<lambda>col. col \<notin> set (df_columns df)) (column_date # columns_to_track)),
           AvailableColumns (df_columns df)]
      \<and> exit_status (escalation_main df) = 0)"
proof -
  have e: "\<not> set (column_date # columns_to_track) \<subseteq> set (df_columns df) \<Longrightarrow>
        filter (\<lambda>col. col \<notin> set (df_columns df)) (column_date # columns_to_track) \<noteq> []"
    by (auto simp: filter_empty_conv)
  have "\<not> set (column_date # columns_to_track) \<subseteq> set (df_columns df) \<longrightarrow>
      escalation_main df = SystemExit None
          [ErrorColumnsNotFound,
           MissingColumns (filter (\<lambda>col. col \<notin> set (df_columns df)) (column_date # columns_to_track)),
           AvailableColumns (df_columns df)]"
    using e by (auto simp: escalation_main_def Let_def)
  then show ?thesis
    by (auto simp: colors_main_def gang_colors_main_def race_main_def heatmap_main_def)
qed

theorem missing_column_aborts_witness:
  "colors_main [(''Subject_Wears_Colors'', [Str ''Y''])]
     = SystemExit None [ErrorColumnsNotFound, ExpectedColumns [column_wears_colors, column_admits_gang],
                        AvailableColumns [''Subject_Wears_Colors'']]
   \<and> exit_status (gang_colors_main [(''Subject_Wears_Colors'', [Str ''Y''])]) = 0
   \<and> exit_status (race_main [(''Subject_Wears_Colors'', [Str ''Y''])]) = 0
   \<and> exit_status (heatmap_main [(''Subject_Wears_Colors'', [Str ''Y''])]) = 0
   \<and> escalation_main [(''Subject_Wears_Colors'', [Str ''Y''])]
     = SystemExit None [ErrorColumnsNotFound,
          MissingColumns [''Subject_Create_Date'', ''Subject_Armed'', ''Subject_Felon'', ''Subject_Probation''],
          AvailableColumns [''Subject_Wears_Colors'']]"
proof -
  let ?df = "[(''Subject_Wears_Colors'', [Str ''Y''])]"
  have c: "df_columns ?df = [''Subject_Wears_Colors'']" by (simp add: df_columns_def)
  have m: "column_admits_gang \<notin> set (df_columns ?df)" "column_admits \<notin> set (df_columns ?df)"
      "column_race \<notin> set (df_columns ?df)" "\<not> set (column_date # columns_to_track) \<subseteq> set (df_columns ?df)"
    by (simp_all add: c column_admits_gang_def column_admits_def column_race_def column_date_def
        columns_to_track_def)
  have f: "filter (\<lambda>col. col \<notin> set (df_columns ?df)) (column_date # columns_to_track)
           = [''Subject_Create_Date'', ''Subject_Armed'', ''Subject_Felon'', ''Subject_Probation'']"
    by (simp add: c column_date_def columns_to_track_def)
  have a: "column_wears_colors \<notin> set (df_columns ?df) \<or> column_admits_gang \<notin> set (df_columns ?df)"
      "column_colors \<notin> set (df_columns ?df) \<or> column_admits \<notin> set (df_columns ?df)"
      "column_race \<notin> set (df_columns ?df) \<or> column_admits_gang \<notin> set (df_columns ?df)"
      "column_zip \<notin> set (df_columns ?df) \<or> column_race \<notin> set (df_columns ?df)"
    using m by blast+
  from missing_column_aborts [of ?df] a m(4)
  have "colors_main ?df = SystemExit None
          [ErrorColumnsNotFound, ExpectedColumns [column_wears_colors, column_admits_gang],
           AvailableColumns (df_columns ?df)]
      \<and> exit_status (gang_colors_main ?df) = 0
      \<and> exit_status (race_main ?df) = 0
      \<and> exit_status (heatmap_main ?df) = 0
      \<and> escalation_main ?df = SystemExit None
          [ErrorColumnsNotFound,
           MissingColumns (filter (\<lambda>col. col \<notin> set (df_columns ?df)) (column_date # columns_to_track)),
           AvailableColumns (df_columns ?df)]"
    by blast
  then show ?thesis unfolding f by (simp only: c)
qed


section \<open>C8: the synthetic dataset of the fallback path\<close>

text \<open>
  \<^verbatim>\<open>colors.py\<close> calls \<^verbatim>\<open>np.random.seed(42)\<close> before it draws its synthetic columns, so
  the dataset is the same whatever state the generator was in.  The fallback of
  \<^verbatim>\<open>gang_colors.py\<close> draws with \<^verbatim>\<open>np.random.choice\<close> directly: its dataset is a function of
  the state the generator starts in, which the interpreter takes from the operating
  system at start-up.
\<close>

text \<open>
  C8 asks that every script seeds its generator in the fallback path, so that two runs
  without the source file plot the same data.  For \<^verbatim>\<open>gang_colors.py\<close> this fails: whenever
  two starting states of the generator give different first draws, the two synthetic
  datasets differ, while the dataset of \<^verbatim>\<open>colors.py\<close> does not depend on the starting state.
\<close>

theorem gang_colors_fallback_depends_on_state:
  assumes "fst (np_choice rng g [Str ''Y'', Str ''NULL'', Str ''N''] [4 / 10, 2 / 10, 4 / 10] 5000)
           \<noteq> fst (np_choice rng g' [Str ''Y'', Str ''NULL'', Str ''N''] [4 / 10, 2 / 10, 4 / 10] 5000)"
  shows "gang_colors_fallback rng g \<noteq> gang_colors_fallback rng g'
         \<and> colors_fallback rng g = colors_fallback rng g'"
  using assms by (auto simp: gang_colors_fallback_def colors_fallback_def Let_def split: prod.splits)

theorem gang_colors_fallback_depends_on_state_witness:
  "gang_colors_fallback counter_rng 0 \<noteq> gang_colors_fallback counter_rng 1
   \<and> colors_fallback counter_rng 0 = colors_fallback counter_rng 1"
proof -
  let ?L = "[Str ''Y'', Str ''NULL'', Str ''N'']"
  have "map (\<lambda>i. ?L ! ((0 + i) mod length ?L)) [0..<5000] \<noteq> map (\<lambda>i. ?L ! ((1 + i) mod length ?L)) [0..<5000]"
  proof
    assume "map (\<lambda>i. ?L ! ((0 + i) mod length ?L)) [0..<5000] = map (\<lambda>i. ?L ! ((1 + i) mod length ?L)) [0..<5000]"
    then have "\<forall>i \<in> set [0..<5000]. ?L ! ((0 + i) mod length ?L) = ?L ! ((1 + i) mod length ?L)"
      by (simp only: map_eq_conv)
    then have "?L ! ((0 + 0) mod length ?L) = ?L ! ((1 + 0) mod length ?L)"
      by (rule bspec) simp
    then show False by simp
  qed
  then have "fst (np_choice counter_rng 0 ?L [4 / 10, 2 / 10, 4 / 10] 5000)
           \<noteq> fst (np_choice counter_rng 1 ?L [4 / 10, 2 / 10, 4 / 10] 5000)"
    by (simp only: counter_rng_def np_random.simps fst_conv simp_thms)
  from gang_colors_fallback_depends_on_state [OF this] show ?thesis .
qed

end
